theory Spec2Isabelle
  imports Main "HOL-Library.Word"
begin

section \<open>The in-memory execution database\<close>

text \<open>
  A shallow embedding of \<^verbatim>\<open>InMemoryExecutionDatabase\<close> of
  \<^verbatim>\<open>nautilus_trader/execution/database.pyx\<close>, with the \<^verbatim>\<open>_reset\<close> it inherits
  from \<^verbatim>\<open>ExecutionDatabase\<close>. The object's fields become a record that every command
  takes and returns; a raised exception is the \<open>Inl\<close> of a sum; an argument that may be
  \<^verbatim>\<open>None\<close> is an \<open>option\<close>; the logger the object writes to is a list of entries
  inside the record. The two diagnostic methods of the base class,
  \<^verbatim>\<open>check_residuals\<close> and \<^verbatim>\<open>get_symbol_position_counts\<close>, are left out.
\<close>

subsection \<open>Identifiers and domain objects\<close>

text \<open>
  The identifier classes wrap a string value. The domain objects are values here: the
  store keeps the record it was handed.
\<close>

datatype account_id = AccountId string
datatype client_order_id = ClientOrderId string
datatype position_id = PositionId string
datatype strategy_id = StrategyId string

fun value_a :: "account_id \<Rightarrow> string" where
  "value_a (AccountId v) = v"

fun value_c :: "client_order_id \<Rightarrow> string" where
  "value_c (ClientOrderId v) = v"

fun value_p :: "position_id \<Rightarrow> string" where
  "value_p (PositionId v) = v"

fun value_s :: "strategy_id \<Rightarrow> string" where
  "value_s (StrategyId v) = v"

text \<open>
  Modelled from the spec: \<^verbatim>\<open>PositionId.is_null\<close> is not among the sources. The
  spec gives \<^verbatim>\<open>PositionId\<close> one distinguished NULL value; it is taken to be the
  identifier whose value is the string NULL.
\<close>

definition is_null :: "position_id \<Rightarrow> bool" where
  "is_null position_id = (value_p position_id = ''NULL'')"

text \<open>
  Of an order the database reads \<^verbatim>\<open>cl_ord_id\<close>, \<^verbatim>\<open>is_working()\<close> and
  \<^verbatim>\<open>is_completed()\<close>; of a position \<^verbatim>\<open>id\<close>, \<^verbatim>\<open>from_order\<close> and
  \<^verbatim>\<open>is_closed()\<close>; of an account and of a strategy the \<^verbatim>\<open>id\<close>. The classes
  are not among the sources; as in the spec, the identifiers of an object are always
  there (\<^verbatim>\<open>from_order\<close> is a \<^verbatim>\<open>ClientOrderId\<close>), and the two state predicates of
  an order are independent.
\<close>

record account =
  id_a :: account_id

record order =
  cl_ord_id :: client_order_id
  is_working :: bool
  is_completed :: bool

record position =
  id_p :: position_id
  from_order :: client_order_id
  is_closed :: bool

record trading_strategy =
  id_s :: strategy_id

subsection \<open>Errors and the log\<close>

text \<open>
  Modelled from the spec: the class \<^verbatim>\<open>Condition\<close> is not among the sources. A
  failed \<^verbatim>\<open>Condition.not_none\<close>, \<^verbatim>\<open>Condition.not_in\<close> or \<^verbatim>\<open>Condition.is_in\<close>
  is a precondition violation of the kind the spec names (null argument, duplicate
  identifier, not registered), carrying the parameter names the call passes.
  \<open>UnboundLocalError\<close> is the interpreter's own error on reading a local variable that was
  never assigned.
\<close>

datatype error =
    NullArgument string
  | DuplicateIdentifier string string
  | NotRegistered string string
  | UnboundLocalError string

fun is_precondition_violation :: "error \<Rightarrow> bool" where
  "is_precondition_violation (NullArgument _) = True"
| "is_precondition_violation (DuplicateIdentifier _ _) = True"
| "is_precondition_violation (NotRegistered _ _) = True"
| "is_precondition_violation (UnboundLocalError _) = False"

datatype log_level = DEBUG | INFO | WARNING | ERROR

type_synonym log_entry = "log_level \<times> string"

subsection \<open>The state\<close>

record execution_database =
  cached_accounts :: "account_id \<rightharpoonup> account"
  cached_orders :: "client_order_id \<rightharpoonup> order"
  cached_positions :: "position_id \<rightharpoonup> position"
  strategies :: "strategy_id set"
  index_order_position :: "client_order_id \<rightharpoonup> position_id"
  index_order_strategy :: "client_order_id \<rightharpoonup> strategy_id"
  index_position_strategy :: "position_id \<rightharpoonup> strategy_id"
  index_position_orders :: "position_id \<rightharpoonup> client_order_id set"
  index_strategy_orders :: "strategy_id \<rightharpoonup> client_order_id set"
  index_strategy_positions :: "strategy_id \<rightharpoonup> position_id set"
  index_orders :: "client_order_id set"
  index_orders_working :: "client_order_id set"
  index_orders_completed :: "client_order_id set"
  index_positions :: "position_id set"
  index_positions_open :: "position_id set"
  index_positions_closed :: "position_id set"
  logged :: "log_entry list"

text \<open>The state that the two \<^verbatim>\<open>__init__\<close> methods build.\<close>

definition new_database :: execution_database where
  "new_database =
     \<lparr>cached_accounts = Map.empty, cached_orders = Map.empty, cached_positions = Map.empty,
      strategies = {},
      index_order_position = Map.empty, index_order_strategy = Map.empty,
      index_position_strategy = Map.empty, index_position_orders = Map.empty,
      index_strategy_orders = Map.empty, index_strategy_positions = Map.empty,
      index_orders = {}, index_orders_working = {}, index_orders_completed = {},
      index_positions = {}, index_positions_open = {}, index_positions_closed = {},
      logged = []\<rparr>"

text \<open>
  Modelled from the spec: \<^verbatim>\<open>LoggerAdapter\<close> is not among the sources; a call of
  \<^verbatim>\<open>self._log.debug\<close>, \<^verbatim>\<open>info\<close> or \<^verbatim>\<open>error\<close> appends one entry. The string
  form of an identifier inside a message is taken to be its value.
\<close>

definition emit :: "log_level \<Rightarrow> string \<Rightarrow> execution_database \<Rightarrow> execution_database" where
  "emit level msg db = db\<lparr>logged := logged db @ [(level, msg)]\<rparr>"

subsection \<open>Commands\<close>

fun add_account :: "execution_database \<Rightarrow> account option \<Rightarrow> error + execution_database" where
  "add_account db None = Inl (NullArgument ''account'')"
| "add_account db (Some account) =
     (if cached_accounts db (id_a account) \<noteq> None
      then Inl (DuplicateIdentifier ''account.id'' ''cached_accounts'')
      else Inr (emit DEBUG (''Added Account(id='' @ value_a (id_a account) @ '').'')
                  (db\<lparr>cached_accounts := (cached_accounts db)(id_a account \<mapsto> account)\<rparr>)))"

text \<open>
  The four blocks of \<^verbatim>\<open>index_position_id\<close>, in the order of the source. The first
  two set an entry once: a second, different value is not written, and an error is
  logged. The last two add to the set of the key, creating it when the key is new.
\<close>

definition index_order_to_position ::
  "position_id \<Rightarrow> client_order_id \<Rightarrow> execution_database \<Rightarrow> execution_database" where
  "index_order_to_position position_id order_id db =
     (case index_order_position db order_id of
        None \<Rightarrow> db\<lparr>index_order_position := (index_order_position db)(order_id \<mapsto> position_id)\<rparr>
      | Some indexed \<Rightarrow>
          if position_id \<noteq> indexed
          then emit ERROR (''Order indexing invalid for '' @ value_p position_id @ ''.'') db
          else db)"

definition index_position_to_strategy ::
  "position_id \<Rightarrow> strategy_id \<Rightarrow> execution_database \<Rightarrow> execution_database" where
  "index_position_to_strategy position_id strategy_id db =
     (case index_position_strategy db position_id of
        None \<Rightarrow>
          db\<lparr>index_position_strategy := (index_position_strategy db)(position_id \<mapsto> strategy_id)\<rparr>
      | Some indexed \<Rightarrow>
          if strategy_id \<noteq> indexed
          then emit ERROR (''Strategy indexing invalid for '' @ value_p position_id @ ''.'') db
          else db)"

definition index_position_to_orders ::
  "position_id \<Rightarrow> client_order_id \<Rightarrow> execution_database \<Rightarrow> execution_database" where
  "index_position_to_orders position_id order_id db =
     (case index_position_orders db position_id of
        None \<Rightarrow> db\<lparr>index_position_orders := (index_position_orders db)(position_id \<mapsto> {order_id})\<rparr>
      | Some ids \<Rightarrow>
          db\<lparr>index_position_orders :=
               (index_position_orders db)(position_id \<mapsto> insert order_id ids)\<rparr>)"

definition index_strategy_to_positions ::
  "strategy_id \<Rightarrow> position_id \<Rightarrow> execution_database \<Rightarrow> execution_database" where
  "index_strategy_to_positions strategy_id position_id db =
     (case index_strategy_positions db strategy_id of
        None \<Rightarrow>
          db\<lparr>index_strategy_positions := (index_strategy_positions db)(strategy_id \<mapsto> {position_id})\<rparr>
      | Some ids \<Rightarrow>
          db\<lparr>index_strategy_positions :=
               (index_strategy_positions db)(strategy_id \<mapsto> insert position_id ids)\<rparr>)"

fun index_position_id ::
  "execution_database \<Rightarrow> position_id option \<Rightarrow> client_order_id option \<Rightarrow> strategy_id option
     \<Rightarrow> error + execution_database" where
  "index_position_id db None _ _ = Inl (NullArgument ''position_id'')"
| "index_position_id db (Some position_id) None _ = Inl (NullArgument ''cl_ord_id'')"
| "index_position_id db (Some position_id) (Some order_id) None =
     Inl (NullArgument ''strategy_id'')"
| "index_position_id db (Some position_id) (Some order_id) (Some strategy_id) =
     Inr (index_strategy_to_positions strategy_id position_id
           (index_position_to_orders position_id order_id
             (index_position_to_strategy position_id strategy_id
               (index_order_to_position position_id order_id db))))"

text \<open>The block of \<^verbatim>\<open>add_order\<close> that adds the order to the set of its strategy.\<close>

definition index_strategy_to_orders ::
  "strategy_id \<Rightarrow> client_order_id \<Rightarrow> execution_database \<Rightarrow> execution_database" where
  "index_strategy_to_orders strategy_id order_id db =
     (case index_strategy_orders db strategy_id of
        None \<Rightarrow> db\<lparr>index_strategy_orders := (index_strategy_orders db)(strategy_id \<mapsto> {order_id})\<rparr>
      | Some ids \<Rightarrow>
          db\<lparr>index_strategy_orders :=
               (index_strategy_orders db)(strategy_id \<mapsto> insert order_id ids)\<rparr>)"

fun add_order ::
  "execution_database \<Rightarrow> order option \<Rightarrow> position_id option \<Rightarrow> strategy_id option
     \<Rightarrow> error + execution_database" where
  "add_order db None _ _ = Inl (NullArgument ''order'')"
| "add_order db (Some order) None _ = Inl (NullArgument ''position_id'')"
| "add_order db (Some order) (Some position_id) None = Inl (NullArgument ''strategy_id'')"
| "add_order db (Some order) (Some position_id) (Some strategy_id) =
     (if cached_orders db (cl_ord_id order) \<noteq> None
      then Inl (DuplicateIdentifier ''order.cl_ord_id'' ''cached_orders'')
      else if cl_ord_id order \<in> index_orders db
      then Inl (DuplicateIdentifier ''order.cl_ord_id'' ''index_orders'')
      else if index_order_position db (cl_ord_id order) \<noteq> None
      then Inl (DuplicateIdentifier ''order.cl_ord_id'' ''index_order_position'')
      else if index_order_strategy db (cl_ord_id order) \<noteq> None
      then Inl (DuplicateIdentifier ''order.cl_ord_id'' ''index_order_strategy'')
      else
        (let db1 = db\<lparr>cached_orders := (cached_orders db)(cl_ord_id order \<mapsto> order),
                       index_orders := insert (cl_ord_id order) (index_orders db),
                       index_order_strategy :=
                         (index_order_strategy db)(cl_ord_id order \<mapsto> strategy_id)\<rparr>;
             db2 = index_strategy_to_orders strategy_id (cl_ord_id order) db1;
             db3 = emit DEBUG (''Added Order(cl_ord_id='' @ value_c (cl_ord_id order) @ '').'') db2
         in if is_null position_id then Inr db3
            else index_position_id db3 (Some position_id) (Some (cl_ord_id order)) (Some strategy_id)))"

fun add_position ::
  "execution_database \<Rightarrow> position option \<Rightarrow> strategy_id option \<Rightarrow> error + execution_database" where
  "add_position db None _ = Inl (NullArgument ''position'')"
| "add_position db (Some position) None = Inl (NullArgument ''strategy_id'')"
| "add_position db (Some position) (Some strategy_id) =
     (if cached_positions db (id_p position) \<noteq> None
      then Inl (DuplicateIdentifier ''position.id'' ''cached_positions'')
      else if id_p position \<in> index_positions db
      then Inl (DuplicateIdentifier ''position.id'' ''index_positions'')
      else if id_p position \<in> index_positions_open db
      then Inl (DuplicateIdentifier ''position.id'' ''index_positions_open'')
      else
        (let db1 = db\<lparr>cached_positions := (cached_positions db)(id_p position \<mapsto> position),
                       index_positions := insert (id_p position) (index_positions db),
                       index_positions_open := insert (id_p position) (index_positions_open db)\<rparr>
         in case index_position_id db1 (Some (id_p position)) (Some (from_order position))
                   (Some strategy_id) of
              Inl e \<Rightarrow> Inl e
            | Inr db2 \<Rightarrow>
                Inr (emit DEBUG (''Added Position(id='' @ value_p (id_p position) @ '').'') db2)))"

definition update_account :: "execution_database \<Rightarrow> account option \<Rightarrow> error + execution_database" where
  "update_account db account = Inr db"

fun update_strategy ::
  "execution_database \<Rightarrow> trading_strategy option \<Rightarrow> error + execution_database" where
  "update_strategy db None = Inl (NullArgument ''strategy'')"
| "update_strategy db (Some strategy) =
     Inr ((emit INFO (''Saving '' @ value_s (id_s strategy) @ '' (in-memory database does nothing).'') db)
            \<lparr>strategies := insert (id_s strategy) (strategies db)\<rparr>)"

fun update_order :: "execution_database \<Rightarrow> order option \<Rightarrow> error + execution_database" where
  "update_order db None = Inl (NullArgument ''order'')"
| "update_order db (Some order) =
     (if is_working order
      then Inr (db\<lparr>index_orders_working := insert (cl_ord_id order) (index_orders_working db),
                   index_orders_completed := index_orders_completed db - {cl_ord_id order}\<rparr>)
      else if is_completed order
      then Inr (db\<lparr>index_orders_completed := insert (cl_ord_id order) (index_orders_completed db),
                   index_orders_working := index_orders_working db - {cl_ord_id order}\<rparr>)
      else Inr db)"

fun update_position :: "execution_database \<Rightarrow> position option \<Rightarrow> error + execution_database" where
  "update_position db None = Inl (NullArgument ''position'')"
| "update_position db (Some position) =
     (if is_closed position
      then Inr (db\<lparr>index_positions_closed := insert (id_p position) (index_positions_closed db),
                   index_positions_open := index_positions_open db - {id_p position}\<rparr>)
      else Inr db)"

fun load_strategy ::
  "execution_database \<Rightarrow> trading_strategy option \<Rightarrow> error + execution_database" where
  "load_strategy db None = Inl (NullArgument ''strategy'')"
| "load_strategy db (Some strategy) =
     Inr (emit INFO (''Loading '' @ value_s (id_s strategy) @ '' (in-memory database does nothing).'') db)"

fun load_account :: "execution_database \<Rightarrow> account_id option \<Rightarrow> error + account option" where
  "load_account db None = Inl (NullArgument ''account_id'')"
| "load_account db (Some account_id) = Inr (cached_accounts db account_id)"

fun load_order :: "execution_database \<Rightarrow> client_order_id option \<Rightarrow> error + order option" where
  "load_order db None = Inl (NullArgument ''cl_ord_id'')"
| "load_order db (Some order_id) = Inr (cached_orders db order_id)"

fun load_position :: "execution_database \<Rightarrow> position_id option \<Rightarrow> error + position option" where
  "load_position db None = Inl (NullArgument ''position_id'')"
| "load_position db (Some position_id) = Inr (cached_positions db position_id)"

fun delete_strategy ::
  "execution_database \<Rightarrow> trading_strategy option \<Rightarrow> error + execution_database" where
  "delete_strategy db None = Inl (NullArgument ''strategy'')"
| "delete_strategy db (Some strategy) =
     (if id_s strategy \<notin> strategies db
      then Inl (NotRegistered ''strategy.id'' ''strategies'')
      else
        (let db1 = db\<lparr>strategies := strategies db - {id_s strategy}\<rparr>;
             db2 = (if index_strategy_orders db1 (id_s strategy) \<noteq> None
                    then db1\<lparr>index_strategy_orders :=
                               (index_strategy_orders db1)(id_s strategy := None)\<rparr>
                    else db1);
             db3 = (if index_strategy_positions db2 (id_s strategy) \<noteq> None
                    then db2\<lparr>index_strategy_positions :=
                               (index_strategy_positions db2)(id_s strategy := None)\<rparr>
                    else db2)
         in Inr (emit DEBUG (''Deleted Strategy(id='' @ value_s (id_s strategy) @ '').'') db3)))"

text \<open>\<^verbatim>\<open>ExecutionDatabase._reset\<close>: the three primary stores are cleared.\<close>

definition reset_base :: "execution_database \<Rightarrow> execution_database" where
  "reset_base db =
     emit INFO ''Reset.''
       ((emit DEBUG ''Resetting...'' db)
          \<lparr>cached_accounts := Map.empty, cached_orders := Map.empty,
           cached_positions := Map.empty\<rparr>)"

definition reset :: "execution_database \<Rightarrow> execution_database" where
  "reset db =
     reset_base
       ((emit DEBUG ''Resetting...'' db)
          \<lparr>strategies := {},
           index_order_position := Map.empty, index_order_strategy := Map.empty,
           index_position_strategy := Map.empty, index_position_orders := Map.empty,
           index_strategy_orders := Map.empty, index_strategy_positions := Map.empty,
           index_orders := {}, index_orders_working := {}, index_orders_completed := {},
           index_positions := {}, index_positions_open := {}, index_positions_closed := {}\<rparr>)"

definition flush :: "execution_database \<Rightarrow> execution_database" where
  "flush db = emit INFO ''Flushing database (in-memory database does nothing).'' db"

subsection \<open>Queries\<close>

fun get_account :: "execution_database \<Rightarrow> account_id option \<Rightarrow> error + account option" where
  "get_account db None = Inl (NullArgument ''account_id'')"
| "get_account db (Some account_id) = Inr (cached_accounts db account_id)"

definition get_strategy_ids :: "execution_database \<Rightarrow> strategy_id set" where
  "get_strategy_ids db = strategies db"

text \<open>
  The six id-set queries. Without a filter the base set is returned; with one, the
  strategy's set is looked up, and the result is empty when there is none.
\<close>

fun get_order_ids :: "execution_database \<Rightarrow> strategy_id option \<Rightarrow> client_order_id set" where
  "get_order_ids db None = index_orders db"
| "get_order_ids db (Some strategy_id) =
     (case index_strategy_orders db strategy_id of
        None \<Rightarrow> {}
      | Some strategy_order_ids \<Rightarrow> index_orders db \<inter> strategy_order_ids)"

fun get_order_working_ids :: "execution_database \<Rightarrow> strategy_id option \<Rightarrow> client_order_id set" where
  "get_order_working_ids db None = index_orders_working db"
| "get_order_working_ids db (Some strategy_id) =
     (case index_strategy_orders db strategy_id of
        None \<Rightarrow> {}
      | Some strategy_order_ids \<Rightarrow> index_orders_working db \<inter> strategy_order_ids)"

fun get_order_completed_ids :: "execution_database \<Rightarrow> strategy_id option \<Rightarrow> client_order_id set" where
  "get_order_completed_ids db None = index_orders_completed db"
| "get_order_completed_ids db (Some strategy_id) =
     (case index_strategy_orders db strategy_id of
        None \<Rightarrow> {}
      | Some strategy_order_ids \<Rightarrow> index_orders_completed db \<inter> strategy_order_ids)"

fun get_position_ids :: "execution_database \<Rightarrow> strategy_id option \<Rightarrow> position_id set" where
  "get_position_ids db None = index_positions db"
| "get_position_ids db (Some strategy_id) =
     (case index_strategy_positions db strategy_id of
        None \<Rightarrow> {}
      | Some strategy_position_ids \<Rightarrow> index_positions db \<inter> strategy_position_ids)"

fun get_position_open_ids :: "execution_database \<Rightarrow> strategy_id option \<Rightarrow> position_id set" where
  "get_position_open_ids db None = index_positions_open db"
| "get_position_open_ids db (Some strategy_id) =
     (case index_strategy_positions db strategy_id of
        None \<Rightarrow> {}
      | Some strategy_position_ids \<Rightarrow> index_positions_open db \<inter> strategy_position_ids)"

fun get_position_closed_ids :: "execution_database \<Rightarrow> strategy_id option \<Rightarrow> position_id set" where
  "get_position_closed_ids db None = index_positions_closed db"
| "get_position_closed_ids db (Some strategy_id) =
     (case index_strategy_positions db strategy_id of
        None \<Rightarrow> {}
      | Some strategy_position_ids \<Rightarrow> index_positions_closed db \<inter> strategy_position_ids)"

fun get_strategy_for_order ::
  "execution_database \<Rightarrow> client_order_id option \<Rightarrow> error + strategy_id option" where
  "get_strategy_for_order db None = Inl (NullArgument ''cl_ord_id'')"
| "get_strategy_for_order db (Some order_id) = Inr (index_order_strategy db order_id)"

fun get_strategy_for_position ::
  "execution_database \<Rightarrow> position_id option \<Rightarrow> error + strategy_id option" where
  "get_strategy_for_position db None = Inl (NullArgument ''position_id'')"
| "get_strategy_for_position db (Some position_id) = Inr (index_position_strategy db position_id)"

fun get_order :: "execution_database \<Rightarrow> client_order_id option \<Rightarrow> error + order option" where
  "get_order db None = Inl (NullArgument ''cl_ord_id'')"
| "get_order db (Some order_id) = Inr (cached_orders db order_id)"

fun get_position :: "execution_database \<Rightarrow> position_id option \<Rightarrow> error + position option" where
  "get_position db None = Inl (NullArgument ''position_id'')"
| "get_position db (Some position_id) = Inr (cached_positions db position_id)"

fun get_position_id ::
  "execution_database \<Rightarrow> client_order_id option \<Rightarrow> error + position_id option" where
  "get_position_id db None = Inl (NullArgument ''cl_ord_id'')"
| "get_position_id db (Some order_id) = Inr (index_order_position db order_id)"

text \<open>
  The six dictionary queries share one body:
  \<^verbatim>\<open>
    cdef dict orders
    try:
        orders = {order_id: self._cached_orders[order_id] for order_id in order_ids}
    except KeyError as ex:
        self._log.error("Cannot find order object in cached orders " + str(ex))
    return orders
  \<close>
  The comprehension either builds the whole dictionary or raises \<^verbatim>\<open>KeyError\<close> at the
  first identifier without a record, and then the assignment never happens: the error is
  logged and \<^verbatim>\<open>return orders\<close> reads a local that was never bound. \<open>project\<close> is that
  body, with the message of the query as a parameter. The text of the \<^verbatim>\<open>KeyError\<close>
  names the first missing identifier in the iteration order of a hash set; it is left
  out of the logged message.
\<close>

definition project ::
  "string \<Rightarrow> string \<Rightarrow> ('k \<rightharpoonup> 'v) \<Rightarrow> 'k set \<Rightarrow> execution_database
     \<Rightarrow> execution_database \<times> (error + ('k \<rightharpoonup> 'v))" where
  "project local_name msg cached ids db =
     (if ids \<subseteq> dom cached
      then (db, Inr (cached |` ids))
      else (emit ERROR msg db, Inl (UnboundLocalError local_name)))"

definition get_orders ::
  "execution_database \<Rightarrow> strategy_id option
     \<Rightarrow> execution_database \<times> (error + (client_order_id \<rightharpoonup> order))" where
  "get_orders db strategy_id =
     project ''orders'' ''Cannot find order object in cached orders ''
       (cached_orders db) (get_order_ids db strategy_id) db"

definition get_orders_working ::
  "execution_database \<Rightarrow> strategy_id option
     \<Rightarrow> execution_database \<times> (error + (client_order_id \<rightharpoonup> order))" where
  "get_orders_working db strategy_id =
     project ''orders_working'' ''Cannot find Order object in cache ''
       (cached_orders db) (get_order_working_ids db strategy_id) db"

definition get_orders_completed ::
  "execution_database \<Rightarrow> strategy_id option
     \<Rightarrow> execution_database \<times> (error + (client_order_id \<rightharpoonup> order))" where
  "get_orders_completed db strategy_id =
     project ''orders_completed'' ''Cannot find Order object in cache ''
       (cached_orders db) (get_order_completed_ids db strategy_id) db"

definition get_positions ::
  "execution_database \<Rightarrow> strategy_id option
     \<Rightarrow> execution_database \<times> (error + (position_id \<rightharpoonup> position))" where
  "get_positions db strategy_id =
     project ''positions'' ''Cannot find Position object in cache ''
       (cached_positions db) (get_position_ids db strategy_id) db"

definition get_positions_open ::
  "execution_database \<Rightarrow> strategy_id option
     \<Rightarrow> execution_database \<times> (error + (position_id \<rightharpoonup> position))" where
  "get_positions_open db strategy_id =
     project ''positions'' ''Cannot find Position object in cache ''
       (cached_positions db) (get_position_open_ids db strategy_id) db"

definition get_positions_closed ::
  "execution_database \<Rightarrow> strategy_id option
     \<Rightarrow> execution_database \<times> (error + (position_id \<rightharpoonup> position))" where
  "get_positions_closed db strategy_id =
     project ''positions'' ''Cannot find Position object in cache ''
       (cached_positions db) (get_position_closed_ids db strategy_id) db"

text \<open>
  The predicates. Each starts with \<^verbatim>\<open>Condition.not_none\<close> on its argument, and
  the failed check is the \<open>Inl\<close> here. They are declared \<^verbatim>\<open>cpdef bint\<close> without an
  exception value: compiled by a Cython before version 3, the exception raised inside
  is reported and dropped and the caller receives \<^verbatim>\<open>False\<close>. The properties below
  call the predicates with an identifier only, where the two agree.
\<close>

fun order_exists :: "execution_database \<Rightarrow> client_order_id option \<Rightarrow> error + bool" where
  "order_exists db None = Inl (NullArgument ''cl_ord_id'')"
| "order_exists db (Some order_id) = Inr (order_id \<in> index_orders db)"

fun is_order_working :: "execution_database \<Rightarrow> client_order_id option \<Rightarrow> error + bool" where
  "is_order_working db None = Inl (NullArgument ''cl_ord_id'')"
| "is_order_working db (Some order_id) = Inr (order_id \<in> index_orders_working db)"

fun is_order_completed :: "execution_database \<Rightarrow> client_order_id option \<Rightarrow> error + bool" where
  "is_order_completed db None = Inl (NullArgument ''cl_ord_id'')"
| "is_order_completed db (Some order_id) = Inr (order_id \<in> index_orders_completed db)"

fun position_exists :: "execution_database \<Rightarrow> position_id option \<Rightarrow> error + bool" where
  "position_exists db None = Inl (NullArgument ''position_id'')"
| "position_exists db (Some position_id) = Inr (position_id \<in> index_positions db)"

fun position_exists_for_order ::
  "execution_database \<Rightarrow> client_order_id option \<Rightarrow> error + bool" where
  "position_exists_for_order db None = Inl (NullArgument ''cl_ord_id'')"
| "position_exists_for_order db (Some order_id) =
     (case index_order_position db order_id of
        None \<Rightarrow> Inr False
      | Some position_id \<Rightarrow> Inr (position_id \<in> index_positions db))"

fun position_indexed_for_order ::
  "execution_database \<Rightarrow> client_order_id option \<Rightarrow> error + bool" where
  "position_indexed_for_order db None = Inl (NullArgument ''cl_ord_id'')"
| "position_indexed_for_order db (Some order_id) = Inr (index_order_position db order_id \<noteq> None)"

fun is_position_open :: "execution_database \<Rightarrow> position_id option \<Rightarrow> error + bool" where
  "is_position_open db None = Inl (NullArgument ''position_id'')"
| "is_position_open db (Some position_id) = Inr (position_id \<in> index_positions_open db)"

fun is_position_closed :: "execution_database \<Rightarrow> position_id option \<Rightarrow> error + bool" where
  "is_position_closed db None = Inl (NullArgument ''position_id'')"
| "is_position_closed db (Some position_id) = Inr (position_id \<in> index_positions_closed db)"

text \<open>
  The count queries are declared \<^verbatim>\<open>cpdef int\<close>: the length of the set, a
  \<^verbatim>\<open>Py_ssize_t\<close>, is returned through a C \<^verbatim>\<open>int\<close>, which keeps its low 32 bits as a
  signed number.
\<close>

definition c_int :: "nat \<Rightarrow> int" where
  "c_int n = sint (word_of_nat n :: 32 word)"

definition orders_total_count :: "execution_database \<Rightarrow> strategy_id option \<Rightarrow> int" where
  "orders_total_count db strategy_id = c_int (card (get_order_ids db strategy_id))"

definition orders_working_count :: "execution_database \<Rightarrow> strategy_id option \<Rightarrow> int" where
  "orders_working_count db strategy_id = c_int (card (get_order_working_ids db strategy_id))"

definition orders_completed_count :: "execution_database \<Rightarrow> strategy_id option \<Rightarrow> int" where
  "orders_completed_count db strategy_id = c_int (card (get_order_completed_ids db strategy_id))"

definition positions_total_count :: "execution_database \<Rightarrow> strategy_id option \<Rightarrow> int" where
  "positions_total_count db strategy_id = c_int (card (get_position_ids db strategy_id))"

definition positions_open_count :: "execution_database \<Rightarrow> strategy_id option \<Rightarrow> int" where
  "positions_open_count db strategy_id = c_int (card (get_position_open_ids db strategy_id))"

definition positions_closed_count :: "execution_database \<Rightarrow> strategy_id option \<Rightarrow> int" where
  "positions_closed_count db strategy_id = c_int (card (get_position_closed_ids db strategy_id))"

subsection \<open>Sequences of commands\<close>

text \<open>
  The commands as data, and a sequence of them run from a state. Every check of a
  command stands before its first assignment, and the one call made after the first
  assignment, that of \<^verbatim>\<open>index_position_id\<close> with three identifiers, does not fail
  (\<open>index_position_id_succeeds\<close> below): a command that raises has changed nothing, so
  the caller goes on with the database as it was.
\<close>

datatype command =
    AddAccount "account option"
  | AddOrder "order option" "position_id option" "strategy_id option"
  | AddPosition "position option" "strategy_id option"
  | UpdateAccount "account option"
  | UpdateStrategy "trading_strategy option"
  | UpdateOrder "order option"
  | UpdatePosition "position option"
  | LoadStrategy "trading_strategy option"
  | DeleteStrategy "trading_strategy option"
  | Reset
  | Flush

fun execute :: "execution_database \<Rightarrow> command \<Rightarrow> error + execution_database" where
  "execute db (AddAccount account) = add_account db account"
| "execute db (AddOrder order position_id strategy_id) = add_order db order position_id strategy_id"
| "execute db (AddPosition position strategy_id) = add_position db position strategy_id"
| "execute db (UpdateAccount account) = update_account db account"
| "execute db (UpdateStrategy strategy) = update_strategy db strategy"
| "execute db (UpdateOrder order) = update_order db order"
| "execute db (UpdatePosition position) = update_position db position"
| "execute db (LoadStrategy strategy) = load_strategy db strategy"
| "execute db (DeleteStrategy strategy) = delete_strategy db strategy"
| "execute db Reset = Inr (reset db)"
| "execute db Flush = Inr (flush db)"

definition step :: "execution_database \<Rightarrow> command \<Rightarrow> execution_database" where
  "step db c = (case execute db c of Inl e \<Rightarrow> db | Inr db' \<Rightarrow> db')"

definition run :: "execution_database \<Rightarrow> command list \<Rightarrow> execution_database" where
  "run db cs = foldl step db cs"

subsection \<open>Notions used in the statements and proofs\<close>

text \<open>
  \<open>adds_unclosed db cs\<close>: along the sequence \<open>cs\<close> started in \<open>db\<close>, no
  \<^verbatim>\<open>add_position\<close> succeeds for a position whose identifier is in the closed set at
  that moment. A call that is rejected, as the second \<^verbatim>\<open>add_position\<close> of a position
  is, changes nothing and is not barred.
\<close>

fun adds_unclosed :: "execution_database \<Rightarrow> command list \<Rightarrow> bool" where
  "adds_unclosed db [] = True"
| "adds_unclosed db (c # cs) =
     ((case c of
         AddPosition (Some position) strategy_id \<Rightarrow>
           isl (add_position db (Some position) strategy_id)
           \<or> id_p position \<notin> index_positions_closed db
       | _ \<Rightarrow> True)
      \<and> adds_unclosed (step db c) cs)"

text \<open>
  Every order listed under a position has an entry in the index from orders to
  positions.
\<close>

definition position_orders_indexed :: "execution_database \<Rightarrow> bool" where
  "position_orders_indexed db =
     (\<forall>p ids. index_position_orders db p = Some ids \<longrightarrow> ids \<subseteq> dom (index_order_position db))"

subsection \<open>Example data\<close>

abbreviation strategy_1 :: trading_strategy where
  "strategy_1 \<equiv> \<lparr>id_s = StrategyId ''S-1''\<rparr>"

abbreviation null_id :: position_id where
  "null_id \<equiv> PositionId ''NULL''"

abbreviation order_1 :: order where
  "order_1 \<equiv> \<lparr>cl_ord_id = ClientOrderId ''O-1'', is_working = True, is_completed = False\<rparr>"

abbreviation order_1_done :: order where
  "order_1_done \<equiv> \<lparr>cl_ord_id = ClientOrderId ''O-1'', is_working = False, is_completed = True\<rparr>"

abbreviation order_2 :: order where
  "order_2 \<equiv> \<lparr>cl_ord_id = ClientOrderId ''O-2'', is_working = True, is_completed = False\<rparr>"

abbreviation position_1 :: position where
  "position_1 \<equiv>
     \<lparr>id_p = PositionId ''P-1'', from_order = ClientOrderId ''O-1'', is_closed = False\<rparr>"

abbreviation position_1_closed :: position where
  "position_1_closed \<equiv>
     \<lparr>id_p = PositionId ''P-1'', from_order = ClientOrderId ''O-1'', is_closed = True\<rparr>"

abbreviation position_2 :: position where
  "position_2 \<equiv>
     \<lparr>id_p = PositionId ''P-2'', from_order = ClientOrderId ''O-1'', is_closed = False\<rparr>"

text \<open>
  A long run: \<open>add_nth_order n\<close> adds the order whose identifier is \<open>n\<close> strokes, with
  the NULL position identifier, under one strategy.
\<close>

definition nth_order :: "nat \<Rightarrow> order" where
  "nth_order n =
     \<lparr>cl_ord_id = ClientOrderId (replicate n CHR ''I''), is_working = False, is_completed = False\<rparr>"

definition add_nth_order :: "nat \<Rightarrow> command" where
  "add_nth_order n = AddOrder (Some (nth_order n)) (Some null_id) (Some (StrategyId ''S-1''))"

section \<open>Field lemmas\<close>

lemma emit_fields [simp]:
  shows "cached_accounts (emit level msg db) = cached_accounts db"
    and "cached_orders (emit level msg db) = cached_orders db"
    and "cached_positions (emit level msg db) = cached_positions db"
    and "strategies (emit level msg db) = strategies db"
    and "index_order_position (emit level msg db) = index_order_position db"
    and "index_order_strategy (emit level msg db) = index_order_strategy db"
    and "index_position_strategy (emit level msg db) = index_position_strategy db"
    and "index_position_orders (emit level msg db) = index_position_orders db"
    and "index_strategy_orders (emit level msg db) = index_strategy_orders db"
    and "index_strategy_positions (emit level msg db) = index_strategy_positions db"
    and "index_orders (emit level msg db) = index_orders db"
    and "index_orders_working (emit level msg db) = index_orders_working db"
    and "index_orders_completed (emit level msg db) = index_orders_completed db"
    and "index_positions (emit level msg db) = index_positions db"
    and "index_positions_open (emit level msg db) = index_positions_open db"
    and "index_positions_closed (emit level msg db) = index_positions_closed db"
    and "logged (emit level msg db) =
       logged db @ [(level, msg)]"
  by (simp_all add: emit_def)

lemma index_order_to_position_fields [simp]:
  shows "cached_accounts (index_order_to_position p c db) = cached_accounts db"
    and "cached_orders (index_order_to_position p c db) = cached_orders db"
    and "cached_positions (index_order_to_position p c db) = cached_positions db"
    and "strategies (index_order_to_position p c db) = strategies db"
    and "index_order_position (index_order_to_position p c db) =
       (case index_order_position db c of
          None \<Rightarrow> (index_order_position db)(c \<mapsto> p)
        | Some q \<Rightarrow> index_order_position db)"
    and "index_order_strategy (index_order_to_position p c db) = index_order_strategy db"
    and "index_position_strategy (index_order_to_position p c db) = index_position_strategy db"
    and "index_position_orders (index_order_to_position p c db) = index_position_orders db"
    and "index_strategy_orders (index_order_to_position p c db) = index_strategy_orders db"
    and "index_strategy_positions (index_order_to_position p c db) = index_strategy_positions db"
    and "index_orders (index_order_to_position p c db) = index_orders db"
    and "index_orders_working (index_order_to_position p c db) = index_orders_working db"
    and "index_orders_completed (index_order_to_position p c db) = index_orders_completed db"
    and "index_positions (index_order_to_position p c db) = index_positions db"
    and "index_positions_open (index_order_to_position p c db) = index_positions_open db"
    and "index_positions_closed (index_order_to_position p c db) = index_positions_closed db"
    and "logged (index_order_to_position p c db) =
       logged db
       @ (case index_order_position db c of
            None \<Rightarrow> []
          | Some q \<Rightarrow>
              if p \<noteq> q
              then [(ERROR, ''Order indexing invalid for '' @ value_p p @ ''.'')] else [])"
  by (simp_all add: index_order_to_position_def split: option.splits)

lemma index_position_to_strategy_fields [simp]:
  shows "cached_accounts (index_position_to_strategy p s db) = cached_accounts db"
    and "cached_orders (index_position_to_strategy p s db) = cached_orders db"
    and "cached_positions (index_position_to_strategy p s db) = cached_positions db"
    and "strategies (index_position_to_strategy p s db) = strategies db"
    and "index_order_position (index_position_to_strategy p s db) = index_order_position db"
    and "index_order_strategy (index_position_to_strategy p s db) = index_order_strategy db"
    and "index_position_strategy (index_position_to_strategy p s db) =
       (case index_position_strategy db p of
          None \<Rightarrow> (index_position_strategy db)(p \<mapsto> s)
        | Some t \<Rightarrow> index_position_strategy db)"
    and "index_position_orders (index_position_to_strategy p s db) = index_position_orders db"
    and "index_strategy_orders (index_position_to_strategy p s db) = index_strategy_orders db"
    and "index_strategy_positions (index_position_to_strategy p s db) = index_strategy_positions db"
    and "index_orders (index_position_to_strategy p s db) = index_orders db"
    and "index_orders_working (index_position_to_strategy p s db) = index_orders_working db"
    and "index_orders_completed (index_position_to_strategy p s db) = index_orders_completed db"
    and "index_positions (index_position_to_strategy p s db) = index_positions db"
    and "index_positions_open (index_position_to_strategy p s db) = index_positions_open db"
    and "index_positions_closed (index_position_to_strategy p s db) = index_positions_closed db"
    and "logged (index_position_to_strategy p s db) =
       logged db
       @ (case index_position_strategy db p of
            None \<Rightarrow> []
          | Some t \<Rightarrow>
              if s \<noteq> t
              then [(ERROR, ''Strategy indexing invalid for '' @ value_p p @ ''.'')] else [])"
  by (simp_all add: index_position_to_strategy_def split: option.splits)

lemma index_position_to_orders_fields [simp]:
  shows "cached_accounts (index_position_to_orders p c db) = cached_accounts db"
    and "cached_orders (index_position_to_orders p c db) = cached_orders db"
    and "cached_positions (index_position_to_orders p c db) = cached_positions db"
    and "strategies (index_position_to_orders p c db) = strategies db"
    and "index_order_position (index_position_to_orders p c db) = index_order_position db"
    and "index_order_strategy (index_position_to_orders p c db) = index_order_strategy db"
    and "index_position_strategy (index_position_to_orders p c db) = index_position_strategy db"
    and "index_position_orders (index_position_to_orders p c db) =
       (index_position_orders db)
         (p \<mapsto> insert c (case index_position_orders db p of None \<Rightarrow> {} | Some ids \<Rightarrow> ids))"
    and "index_strategy_orders (index_position_to_orders p c db) = index_strategy_orders db"
    and "index_strategy_positions (index_position_to_orders p c db) = index_strategy_positions db"
    and "index_orders (index_position_to_orders p c db) = index_orders db"
    and "index_orders_working (index_position_to_orders p c db) = index_orders_working db"
    and "index_orders_completed (index_position_to_orders p c db) = index_orders_completed db"
    and "index_positions (index_position_to_orders p c db) = index_positions db"
    and "index_positions_open (index_position_to_orders p c db) = index_positions_open db"
    and "index_positions_closed (index_position_to_orders p c db) = index_positions_closed db"
    and "logged (index_position_to_orders p c db) = logged db"
  by (simp_all add: index_position_to_orders_def split: option.splits)

lemma index_strategy_to_positions_fields [simp]:
  shows "cached_accounts (index_strategy_to_positions s p db) = cached_accounts db"
    and "cached_orders (index_strategy_to_positions s p db) = cached_orders db"
    and "cached_positions (index_strategy_to_positions s p db) = cached_positions db"
    and "strategies (index_strategy_to_positions s p db) = strategies db"
    and "index_order_position (index_strategy_to_positions s p db) = index_order_position db"
    and "index_order_strategy (index_strategy_to_positions s p db) = index_order_strategy db"
    and "index_position_strategy (index_strategy_to_positions s p db) = index_position_strategy db"
    and "index_position_orders (index_strategy_to_positions s p db) = index_position_orders db"
    and "index_strategy_orders (index_strategy_to_positions s p db) = index_strategy_orders db"
    and "index_strategy_positions (index_strategy_to_positions s p db) =
       (index_strategy_positions db)
         (s \<mapsto> insert p (case index_strategy_positions db s of None \<Rightarrow> {} | Some ids \<Rightarrow> ids))"
    and "index_orders (index_strategy_to_positions s p db) = index_orders db"
    and "index_orders_working (index_strategy_to_positions s p db) = index_orders_working db"
    and "index_orders_completed (index_strategy_to_positions s p db) = index_orders_completed db"
    and "index_positions (index_strategy_to_positions s p db) = index_positions db"
    and "index_positions_open (index_strategy_to_positions s p db) = index_positions_open db"
    and "index_positions_closed (index_strategy_to_positions s p db) = index_positions_closed db"
    and "logged (index_strategy_to_positions s p db) = logged db"
  by (simp_all add: index_strategy_to_positions_def split: option.splits)

lemma index_strategy_to_orders_fields [simp]:
  shows "cached_accounts (index_strategy_to_orders s c db) = cached_accounts db"
    and "cached_orders (index_strategy_to_orders s c db) = cached_orders db"
    and "cached_positions (index_strategy_to_orders s c db) = cached_positions db"
    and "strategies (index_strategy_to_orders s c db) = strategies db"
    and "index_order_position (index_strategy_to_orders s c db) = index_order_position db"
    and "index_order_strategy (index_strategy_to_orders s c db) = index_order_strategy db"
    and "index_position_strategy (index_strategy_to_orders s c db) = index_position_strategy db"
    and "index_position_orders (index_strategy_to_orders s c db) = index_position_orders db"
    and "index_strategy_orders (index_strategy_to_orders s c db) =
       (index_strategy_orders db)
         (s \<mapsto> insert c (case index_strategy_orders db s of None \<Rightarrow> {} | Some ids \<Rightarrow> ids))"
    and "index_strategy_positions (index_strategy_to_orders s c db) = index_strategy_positions db"
    and "index_orders (index_strategy_to_orders s c db) = index_orders db"
    and "index_orders_working (index_strategy_to_orders s c db) = index_orders_working db"
    and "index_orders_completed (index_strategy_to_orders s c db) = index_orders_completed db"
    and "index_positions (index_strategy_to_orders s c db) = index_positions db"
    and "index_positions_open (index_strategy_to_orders s c db) = index_positions_open db"
    and "index_positions_closed (index_strategy_to_orders s c db) = index_positions_closed db"
    and "logged (index_strategy_to_orders s c db) = logged db"
  by (simp_all add: index_strategy_to_orders_def split: option.splits)

section \<open>Properties\<close>

subsection \<open>Running a sequence\<close>

lemma run_Nil [simp]: "run db [] = db"
  by (simp add: run_def)

lemma run_Cons [simp]: "run db (c # cs) = run (step db c) cs"
  by (simp add: run_def)

lemma run_snoc: "run db (cs @ [c]) = step (run db cs) c"
  by (simp add: run_def)

lemma step_invariant:
  assumes "P db" and "\<And>db'. execute db c = Inr db' \<Longrightarrow> P db'"
  shows "P (step db c)"
  using assms by (cases "execute db c") (auto simp: step_def)

subsection \<open>What the adding commands change\<close>

lemma index_position_id_succeeds:
  "\<not> isl (index_position_id db (Some p) (Some c) (Some s))"
  by simp

lemma add_order_partitions:
  assumes "add_order db order position_id strategy_id = Inr db'"
  shows "index_orders_working db' = index_orders_working db"
    and "index_orders_completed db' = index_orders_completed db"
    and "index_positions_open db' = index_positions_open db"
    and "index_positions_closed db' = index_positions_closed db"
  using assms
  by (cases order; cases position_id; cases strategy_id; auto simp: Let_def split: if_splits)+

lemma add_position_partitions:
  assumes "add_position db (Some position) strategy_id = Inr db'"
  shows "index_orders_working db' = index_orders_working db"
    and "index_orders_completed db' = index_orders_completed db"
    and "index_positions_open db' = insert (id_p position) (index_positions_open db)"
    and "index_positions_closed db' = index_positions_closed db"
  using assms
  by (cases strategy_id; auto simp: Let_def split: if_splits)+

subsection \<open>The partition of orders and of positions\<close>

lemma execute_orders_partition:
  assumes "execute db c = Inr db'"
    and "index_orders_working db \<inter> index_orders_completed db = {}"
  shows "index_orders_working db' \<inter> index_orders_completed db' = {}"
proof (cases c)
  case (AddAccount a)
  then show ?thesis using assms by (cases a) (auto split: if_splits)
next
  case (AddOrder ord p s)
  then show ?thesis using assms add_order_partitions [of db ord p s db'] by simp
next
  case (AddPosition pos s)
  then show ?thesis using assms add_position_partitions [of db _ s db'] by (cases pos) auto
next
  case (UpdateAccount a)
  then show ?thesis using assms by (auto simp: update_account_def)
next
  case (UpdateStrategy st)
  then show ?thesis using assms by (cases st) auto
next
  case (UpdateOrder ord)
  then show ?thesis using assms by (cases ord) (auto split: if_splits)
next
  case (UpdatePosition pos)
  then show ?thesis using assms by (cases pos) (auto split: if_splits)
next
  case (LoadStrategy st)
  then show ?thesis using assms by (cases st) auto
next
  case (DeleteStrategy st)
  then show ?thesis using assms by (cases st) (auto simp: Let_def split: if_splits)
next
  case Reset
  then show ?thesis using assms by (auto simp: reset_def reset_base_def)
next
  case Flush
  then show ?thesis using assms by (auto simp: flush_def)
qed

lemma execute_positions_partition:
  assumes "execute db c = Inr db'"
    and "index_positions_open db \<inter> index_positions_closed db = {}"
    and "case c of
           AddPosition (Some position) strategy_id \<Rightarrow>
             isl (add_position db (Some position) strategy_id)
             \<or> id_p position \<notin> index_positions_closed db
         | _ \<Rightarrow> True"
  shows "index_positions_open db' \<inter> index_positions_closed db' = {}"
proof (cases c)
  case (AddAccount a)
  then show ?thesis using assms by (cases a) (auto split: if_splits)
next
  case (AddOrder ord p s)
  then show ?thesis using assms add_order_partitions [of db ord p s db'] by simp
next
  case (AddPosition pos s)
  then show ?thesis using assms add_position_partitions [of db _ s db'] by (cases pos) auto
next
  case (UpdateAccount a)
  then show ?thesis using assms by (auto simp: update_account_def)
next
  case (UpdateStrategy st)
  then show ?thesis using assms by (cases st) auto
next
  case (UpdateOrder ord)
  then show ?thesis using assms by (cases ord) (auto split: if_splits)
next
  case (UpdatePosition pos)
  then show ?thesis using assms by (cases pos) (auto split: if_splits)
next
  case (LoadStrategy st)
  then show ?thesis using assms by (cases st) auto
next
  case (DeleteStrategy st)
  then show ?thesis using assms by (cases st) (auto simp: Let_def split: if_splits)
next
  case Reset
  then show ?thesis using assms by (auto simp: reset_def reset_base_def)
next
  case Flush
  then show ?thesis using assms by (auto simp: flush_def)
qed

lemma run_orders_partition:
  "index_orders_working db \<inter> index_orders_completed db = {} \<Longrightarrow>
   index_orders_working (run db cs) \<inter> index_orders_completed (run db cs) = {}"
proof (induction cs arbitrary: db)
  case Nil
  then show ?case by simp
next
  case (Cons c cs)
  have "index_orders_working (step db c) \<inter> index_orders_completed (step db c) = {}"
  proof (rule step_invariant)
    show "index_orders_working db \<inter> index_orders_completed db = {}"
      using Cons.prems .
  next
    fix db' assume "execute db c = Inr db'"
    then show "index_orders_working db' \<inter> index_orders_completed db' = {}"
      using Cons.prems by (rule execute_orders_partition)
  qed
  then show ?case using Cons.IH by simp
qed

lemma run_positions_partition:
  "index_positions_open db \<inter> index_positions_closed db = {} \<Longrightarrow> adds_unclosed db cs \<Longrightarrow>
   index_positions_open (run db cs) \<inter> index_positions_closed (run db cs) = {}"
proof (induction cs arbitrary: db)
  case Nil
  then show ?case by simp
next
  case (Cons c cs)
  have "index_positions_open (step db c) \<inter> index_positions_closed (step db c) = {}"
  proof (rule step_invariant)
    show "index_positions_open db \<inter> index_positions_closed db = {}"
      using Cons.prems(1) .
  next
    fix db' assume "execute db c = Inr db'"
    then show "index_positions_open db' \<inter> index_positions_closed db' = {}"
      using Cons.prems by (intro execute_positions_partition [of db c db']) auto
  qed
  then show ?case using Cons.IH Cons.prems by simp
qed

lemma adds_unclosed_take: "adds_unclosed db cs \<Longrightarrow> adds_unclosed db (take n cs)"
proof (induction cs arbitrary: db n)
  case Nil
  then show ?case by simp
next
  case (Cons c cs)
  then show ?case by (cases n) simp_all
qed

text \<open>
  The condition cannot be weakened: in a sequence that does not satisfy it, the open and
  the closed positions overlap after one of its commands.
\<close>

lemma adds_unclosed_needed:
  "\<not> adds_unclosed db cs \<Longrightarrow>
   \<exists>n\<le>length cs. index_positions_open (run db (take n cs))
                  \<inter> index_positions_closed (run db (take n cs)) \<noteq> {}"
proof (induction cs arbitrary: db)
  case Nil
  then show ?case by simp
next
  case (Cons c cs)
  show ?case
  proof (cases "adds_unclosed (step db c) cs")
    case False
    then obtain n where "n \<le> length cs"
      and "index_positions_open (run (step db c) (take n cs))
             \<inter> index_positions_closed (run (step db c) (take n cs)) \<noteq> {}"
      using Cons.IH by blast
    then show ?thesis
      by (intro exI [of _ "Suc n"]) simp
  next
    case True
    then obtain position strategy_id where c: "c = AddPosition (Some position) strategy_id"
      and added: "\<not> isl (add_position db (Some position) strategy_id)"
      and closed: "id_p position \<in> index_positions_closed db"
      using Cons.prems by (auto split: command.splits option.splits)
    obtain db' where db': "add_position db (Some position) strategy_id = Inr db'"
      using added by (cases "add_position db (Some position) strategy_id") simp_all
    have "step db c = db'"
      using c db' by (simp add: step_def)
    then have "id_p position \<in> index_positions_open (step db c)
        \<inter> index_positions_closed (step db c)"
      using add_position_partitions [OF db'] closed by simp
    then have "index_positions_open (run db (take 1 (c # cs)))
        \<inter> index_positions_closed (run db (take 1 (c # cs))) \<noteq> {}"
      by auto
    then show ?thesis
      by (intro exI [of _ 1]) simp
  qed
qed

text \<open>
  C1 (as amended). From a fresh store, after every command of every sequence the
  working and the completed orders are disjoint; the open and the closed positions are
  disjoint after every command of a sequence in which no \<^verbatim>\<open>add_position\<close> succeeds
  for a position whose identifier is in the closed set at that moment. Here \<open>take n cs\<close>
  is the sequence up to its \<open>n\<close>-th command.
\<close>

theorem partition_invariant:
  "index_orders_working (run new_database (take n cs))
     \<inter> index_orders_completed (run new_database (take n cs)) = {}
   \<and> (adds_unclosed new_database cs \<longrightarrow>
        index_positions_open (run new_database (take n cs))
          \<inter> index_positions_closed (run new_database (take n cs)) = {})"
  using run_orders_partition [of new_database "take n cs"]
    run_positions_partition [of new_database "take n cs"]
    adds_unclosed_take [of new_database cs n]
  by (simp add: new_database_def)

text \<open>
  At a concrete sequence: a position is added and closed, and then added once more.
  The second \<^verbatim>\<open>add_position\<close> finds the identifier in the closed set, but it is
  rejected as a duplicate, so the sequence satisfies the condition.
\<close>

theorem partition_invariant_witness:
  "adds_unclosed new_database
     [AddOrder (Some order_1) (Some null_id) (Some (StrategyId ''S-1'')),
      UpdateOrder (Some order_1),
      AddPosition (Some position_1) (Some (StrategyId ''S-1'')),
      UpdatePosition (Some position_1_closed),
      AddPosition (Some position_1_closed) (Some (StrategyId ''S-1'')),
      UpdateOrder (Some order_1_done)]
   \<and> PositionId ''P-1''
       \<in> index_positions_closed (run new_database
           [AddOrder (Some order_1) (Some null_id) (Some (StrategyId ''S-1'')),
            UpdateOrder (Some order_1),
            AddPosition (Some position_1) (Some (StrategyId ''S-1'')),
            UpdatePosition (Some position_1_closed)])
   \<and> isl (add_position (run new_database
           [AddOrder (Some order_1) (Some null_id) (Some (StrategyId ''S-1'')),
            UpdateOrder (Some order_1),
            AddPosition (Some position_1) (Some (StrategyId ''S-1'')),
            UpdatePosition (Some position_1_closed)])
         (Some position_1_closed) (Some (StrategyId ''S-1'')))
   \<and> index_orders_working (run new_database
       [AddOrder (Some order_1) (Some null_id) (Some (StrategyId ''S-1'')),
        UpdateOrder (Some order_1),
        AddPosition (Some position_1) (Some (StrategyId ''S-1'')),
        UpdatePosition (Some position_1_closed),
        AddPosition (Some position_1_closed) (Some (StrategyId ''S-1'')),
        UpdateOrder (Some order_1_done)])
     \<inter> index_orders_completed (run new_database
       [AddOrder (Some order_1) (Some null_id) (Some (StrategyId ''S-1'')),
        UpdateOrder (Some order_1),
        AddPosition (Some position_1) (Some (StrategyId ''S-1'')),
        UpdatePosition (Some position_1_closed),
        AddPosition (Some position_1_closed) (Some (StrategyId ''S-1'')),
        UpdateOrder (Some order_1_done)]) = {}
   \<and> index_positions_open (run new_database
       [AddOrder (Some order_1) (Some null_id) (Some (StrategyId ''S-1'')),
        UpdateOrder (Some order_1),
        AddPosition (Some position_1) (Some (StrategyId ''S-1'')),
        UpdatePosition (Some position_1_closed),
        AddPosition (Some position_1_closed) (Some (StrategyId ''S-1'')),
        UpdateOrder (Some order_1_done)])
     \<inter> index_positions_closed (run new_database
       [AddOrder (Some order_1) (Some null_id) (Some (StrategyId ''S-1'')),
        UpdateOrder (Some order_1),
        AddPosition (Some position_1) (Some (StrategyId ''S-1'')),
        UpdatePosition (Some position_1_closed),
        AddPosition (Some position_1_closed) (Some (StrategyId ''S-1'')),
        UpdateOrder (Some order_1_done)]) = {}"
proof -
  let ?cs = "[AddOrder (Some order_1) (Some null_id) (Some (StrategyId ''S-1'')),
      UpdateOrder (Some order_1),
      AddPosition (Some position_1) (Some (StrategyId ''S-1'')),
      UpdatePosition (Some position_1_closed),
      AddPosition (Some position_1_closed) (Some (StrategyId ''S-1'')),
      UpdateOrder (Some order_1_done)]"
  let ?before = "run new_database
           [AddOrder (Some order_1) (Some null_id) (Some (StrategyId ''S-1'')),
            UpdateOrder (Some order_1),
            AddPosition (Some position_1) (Some (StrategyId ''S-1'')),
            UpdatePosition (Some position_1_closed)]"
  have ok: "adds_unclosed new_database ?cs"
    by (simp add: step_def new_database_def is_null_def Let_def)
  have closed: "PositionId ''P-1'' \<in> index_positions_closed ?before"
    by (simp add: step_def new_database_def is_null_def Let_def)
  have rejected: "isl (add_position ?before (Some position_1_closed) (Some (StrategyId ''S-1'')))"
    by (simp add: step_def new_database_def is_null_def Let_def)
  have whole: "take 6 ?cs = ?cs"
    by simp
  show ?thesis
    using ok closed rejected partition_invariant [of 6 ?cs] unfolding whole by blast
qed

text \<open>
  Without the condition on \<^verbatim>\<open>add_position\<close>, C1 fails for the positions:
  \<^verbatim>\<open>update_position\<close> puts the identifier of a position that was never added into
  the closed set, and \<^verbatim>\<open>add_position\<close>, which looks at the primary store, the
  positions set and the open set only, then succeeds and puts it into the open set as
  well.
\<close>

theorem partition_invariant_counterexample:
  "index_positions_open
     (run new_database
        [UpdatePosition (Some position_1_closed),
         AddPosition (Some position_1_closed) (Some (StrategyId ''S-1''))])
   \<inter> index_positions_closed
     (run new_database
        [UpdatePosition (Some position_1_closed),
         AddPosition (Some position_1_closed) (Some (StrategyId ''S-1''))])
   = {PositionId ''P-1''}"
  by (simp add: step_def new_database_def Let_def)

subsection \<open>Strategy filters\<close>

text \<open>
  C2. For every state, every strategy identifier and each of the six id-set queries:
  the query with the filter is the intersection of the query without filter and the set
  the strategy index holds for the strategy, and it is empty when the index has no entry
  for the strategy.
\<close>

theorem strategy_filter_is_intersection:
  "get_order_ids db (Some s) =
     (case index_strategy_orders db s of
        None \<Rightarrow> {} | Some ids \<Rightarrow> get_order_ids db None \<inter> ids)
   \<and> get_order_working_ids db (Some s) =
     (case index_strategy_orders db s of
        None \<Rightarrow> {} | Some ids \<Rightarrow> get_order_working_ids db None \<inter> ids)
   \<and> get_order_completed_ids db (Some s) =
     (case index_strategy_orders db s of
        None \<Rightarrow> {} | Some ids \<Rightarrow> get_order_completed_ids db None \<inter> ids)
   \<and> get_position_ids db (Some s) =
     (case index_strategy_positions db s of
        None \<Rightarrow> {} | Some ids \<Rightarrow> get_position_ids db None \<inter> ids)
   \<and> get_position_open_ids db (Some s) =
     (case index_strategy_positions db s of
        None \<Rightarrow> {} | Some ids \<Rightarrow> get_position_open_ids db None \<inter> ids)
   \<and> get_position_closed_ids db (Some s) =
     (case index_strategy_positions db s of
        None \<Rightarrow> {} | Some ids \<Rightarrow> get_position_closed_ids db None \<inter> ids)"
  by (simp split: option.splits)

subsection \<open>Dictionary queries over an identifier without a record\<close>

text \<open>
  What the six dictionary queries do: when every identifier of the id set has a record,
  they return the records of exactly these identifiers and log nothing; otherwise they
  log one error and return no dictionary.
\<close>

lemma dictionary_queries:
  shows "get_orders db s =
      (if get_order_ids db s \<subseteq> dom (cached_orders db)
       then (db, Inr (cached_orders db |` get_order_ids db s))
       else (emit ERROR ''Cannot find order object in cached orders '' db,
             Inl (UnboundLocalError ''orders'')))"
    and "get_orders_working db s =
      (if get_order_working_ids db s \<subseteq> dom (cached_orders db)
       then (db, Inr (cached_orders db |` get_order_working_ids db s))
       else (emit ERROR ''Cannot find Order object in cache '' db,
             Inl (UnboundLocalError ''orders_working'')))"
    and "get_orders_completed db s =
      (if get_order_completed_ids db s \<subseteq> dom (cached_orders db)
       then (db, Inr (cached_orders db |` get_order_completed_ids db s))
       else (emit ERROR ''Cannot find Order object in cache '' db,
             Inl (UnboundLocalError ''orders_completed'')))"
    and "get_positions db s =
      (if get_position_ids db s \<subseteq> dom (cached_positions db)
       then (db, Inr (cached_positions db |` get_position_ids db s))
       else (emit ERROR ''Cannot find Position object in cache '' db,
             Inl (UnboundLocalError ''positions'')))"
    and "get_positions_open db s =
      (if get_position_open_ids db s \<subseteq> dom (cached_positions db)
       then (db, Inr (cached_positions db |` get_position_open_ids db s))
       else (emit ERROR ''Cannot find Position object in cache '' db,
             Inl (UnboundLocalError ''positions'')))"
    and "get_positions_closed db s =
      (if get_position_closed_ids db s \<subseteq> dom (cached_positions db)
       then (db, Inr (cached_positions db |` get_position_closed_ids db s))
       else (emit ERROR ''Cannot find Position object in cache '' db,
             Inl (UnboundLocalError ''positions'')))"
  by (simp_all only: get_orders_def get_orders_working_def get_orders_completed_def
      get_positions_def get_positions_open_def get_positions_closed_def project_def)

text \<open>
  C3 (the code at the failing input). One order is added and becomes working; a second
  working order is updated without ever having been added. The working set then holds
  both identifiers and the primary store only the first. \<^verbatim>\<open>get_orders_working\<close> logs
  the error and, instead of the dictionary of the first order, returns nothing: the
  read of the unbound local fails.
\<close>

theorem get_orders_working_defect:
  "get_order_working_ids
     (run new_database
        [AddOrder (Some order_1) (Some null_id) (Some (StrategyId ''S-1'')),
         UpdateOrder (Some order_1), UpdateOrder (Some order_2)])
     None = {ClientOrderId ''O-2'', ClientOrderId ''O-1''}
   \<and> load_order
       (run new_database
          [AddOrder (Some order_1) (Some null_id) (Some (StrategyId ''S-1'')),
           UpdateOrder (Some order_1), UpdateOrder (Some order_2)])
       (Some (ClientOrderId ''O-1'')) = Inr (Some order_1)
   \<and> load_order
       (run new_database
          [AddOrder (Some order_1) (Some null_id) (Some (StrategyId ''S-1'')),
           UpdateOrder (Some order_1), UpdateOrder (Some order_2)])
       (Some (ClientOrderId ''O-2'')) = Inr None
   \<and> snd (get_orders_working
       (run new_database
          [AddOrder (Some order_1) (Some null_id) (Some (StrategyId ''S-1'')),
           UpdateOrder (Some order_1), UpdateOrder (Some order_2)])
       None) = Inl (UnboundLocalError ''orders_working'')
   \<and> logged (fst (get_orders_working
       (run new_database
          [AddOrder (Some order_1) (Some null_id) (Some (StrategyId ''S-1'')),
           UpdateOrder (Some order_1), UpdateOrder (Some order_2)])
       None))
     = logged (run new_database
          [AddOrder (Some order_1) (Some null_id) (Some (StrategyId ''S-1'')),
           UpdateOrder (Some order_1), UpdateOrder (Some order_2)])
       @ [(ERROR, ''Cannot find Order object in cache '')]"
  by (simp add: get_orders_working_def project_def step_def new_database_def is_null_def Let_def)

subsection \<open>Rejected additions\<close>

text \<open>
  C4. \<^verbatim>\<open>add_order\<close> fails, with a precondition violation, exactly when an argument is
  null or the order's identifier is already in the primary store, in the orders set, in
  the index from orders to positions or in the index from orders to strategies;
  \<^verbatim>\<open>add_position\<close> exactly when an argument is null or the position's identifier is in
  the primary store, the positions set or the open set; \<^verbatim>\<open>add_account\<close> exactly when
  the account is null or its identifier is in the primary store.
\<close>

theorem add_fails_iff:
  "((\<exists>e. add_order db order position_id strategy_id = Inl e \<and> is_precondition_violation e)
      \<longleftrightarrow>
    (order = None \<or> position_id = None \<or> strategy_id = None
     \<or> (\<exists>ord. order = Some ord
          \<and> (cl_ord_id ord \<in> dom (cached_orders db)
             \<or> cl_ord_id ord \<in> index_orders db
             \<or> cl_ord_id ord \<in> dom (index_order_position db)
             \<or> cl_ord_id ord \<in> dom (index_order_strategy db)))))
   \<and> isl (add_order db order position_id strategy_id)
       = (\<exists>e. add_order db order position_id strategy_id = Inl e \<and> is_precondition_violation e)
   \<and> ((\<exists>e. add_position db position strategy_id = Inl e \<and> is_precondition_violation e)
      \<longleftrightarrow>
    (position = None \<or> strategy_id = None
     \<or> (\<exists>pos. position = Some pos
          \<and> (id_p pos \<in> dom (cached_positions db)
             \<or> id_p pos \<in> index_positions db
             \<or> id_p pos \<in> index_positions_open db))))
   \<and> isl (add_position db position strategy_id)
       = (\<exists>e. add_position db position strategy_id = Inl e \<and> is_precondition_violation e)
   \<and> ((\<exists>e. add_account db account = Inl e \<and> is_precondition_violation e)
      \<longleftrightarrow>
    (account = None \<or> (\<exists>acc. account = Some acc \<and> id_a acc \<in> dom (cached_accounts db))))
   \<and> isl (add_account db account)
       = (\<exists>e. add_account db account = Inl e \<and> is_precondition_violation e)"
proof -
  have orders: "(\<exists>e. add_order db order position_id strategy_id = Inl e \<and> is_precondition_violation e)
      \<longleftrightarrow>
    (order = None \<or> position_id = None \<or> strategy_id = None
     \<or> (\<exists>ord. order = Some ord
          \<and> (cl_ord_id ord \<in> dom (cached_orders db)
             \<or> cl_ord_id ord \<in> index_orders db
             \<or> cl_ord_id ord \<in> dom (index_order_position db)
             \<or> cl_ord_id ord \<in> dom (index_order_strategy db))))"
    by (cases order; cases position_id; cases strategy_id) (auto simp: Let_def)
  have orders_isl: "isl (add_order db order position_id strategy_id)
       = (\<exists>e. add_order db order position_id strategy_id = Inl e \<and> is_precondition_violation e)"
    by (cases order; cases position_id; cases strategy_id) (auto simp: Let_def)
  have positions: "(\<exists>e. add_position db position strategy_id = Inl e \<and> is_precondition_violation e)
      \<longleftrightarrow>
    (position = None \<or> strategy_id = None
     \<or> (\<exists>pos. position = Some pos
          \<and> (id_p pos \<in> dom (cached_positions db)
             \<or> id_p pos \<in> index_positions db
             \<or> id_p pos \<in> index_positions_open db)))"
    by (cases position; cases strategy_id) (auto simp: Let_def)
  have positions_isl: "isl (add_position db position strategy_id)
       = (\<exists>e. add_position db position strategy_id = Inl e \<and> is_precondition_violation e)"
    by (cases position; cases strategy_id) (auto simp: Let_def)
  have accounts: "(\<exists>e. add_account db account = Inl e \<and> is_precondition_violation e)
      \<longleftrightarrow>
    (account = None \<or> (\<exists>acc. account = Some acc \<and> id_a acc \<in> dom (cached_accounts db)))"
    by (cases account) auto
  have accounts_isl: "isl (add_account db account)
       = (\<exists>e. add_account db account = Inl e \<and> is_precondition_violation e)"
    by (cases account) auto
  show ?thesis
    using orders orders_isl positions positions_isl accounts accounts_isl by blast
qed

text \<open>
  At a concrete store: the second \<^verbatim>\<open>add_order\<close> of the same order fails, the first
  one succeeds.
\<close>

theorem add_fails_iff_witness:
  "isl (add_order
          (run new_database [AddOrder (Some order_1) (Some null_id) (Some (StrategyId ''S-1''))])
          (Some order_1) (Some null_id) (Some (StrategyId ''S-1'')))
   \<and> cl_ord_id order_1
       \<in> dom (cached_orders
            (run new_database [AddOrder (Some order_1) (Some null_id) (Some (StrategyId ''S-1''))]))
   \<and> \<not> isl (add_order new_database (Some order_1) (Some null_id) (Some (StrategyId ''S-1'')))
   \<and> isl (add_position new_database None (Some (StrategyId ''S-1'')))
   \<and> \<not> isl (add_account new_database (Some \<lparr>id_a = AccountId ''A-1''\<rparr>))"
  using add_fails_iff [of
      "run new_database [AddOrder (Some order_1) (Some null_id) (Some (StrategyId ''S-1''))]"
      "Some order_1" "Some null_id" "Some (StrategyId ''S-1'')" None None]
    add_fails_iff [of new_database "Some order_1" "Some null_id" "Some (StrategyId ''S-1'')"
      None "Some \<lparr>id_a = AccountId ''A-1''\<rparr>"]
  by (simp add: step_def new_database_def is_null_def Let_def)

subsection \<open>Orders added with the NULL position identifier\<close>

lemma position_orders_indexed_cong:
  assumes "index_position_orders a = index_position_orders b"
    and "index_order_position a = index_order_position b"
  shows "position_orders_indexed a = position_orders_indexed b"
  using assms by (simp add: position_orders_indexed_def)

lemma index_position_id_indexed:
  assumes "position_orders_indexed db"
    and "index_position_id db (Some p) (Some c) (Some s) = Inr db'"
  shows "position_orders_indexed db'"
proof -
  have db': "db' = index_strategy_to_positions s p
           (index_position_to_orders p c
             (index_position_to_strategy p s (index_order_to_position p c db)))"
    using assms(2) by simp
  have grows: "dom (index_order_position db') = insert c (dom (index_order_position db))"
    unfolding db' by (cases "index_order_position db c") auto
  have listed: "index_position_orders db' =
      (index_position_orders db)
        (p \<mapsto> insert c (case index_position_orders db p of None \<Rightarrow> {} | Some ids \<Rightarrow> ids))"
    unfolding db' by simp
  show ?thesis
    unfolding position_orders_indexed_def grows listed
    using assms(1) unfolding position_orders_indexed_def
    by (auto split: option.splits if_splits)
qed

lemma add_order_indexed:
  assumes "position_orders_indexed db"
    and "add_order db order position_id strategy_id = Inr db'"
  shows "position_orders_indexed db'"
proof -
  obtain ord p s where args: "order = Some ord" "position_id = Some p" "strategy_id = Some s"
    using assms(2) by (cases order; cases position_id; cases strategy_id) auto
  define dbm where "dbm =
    emit DEBUG (''Added Order(cl_ord_id='' @ value_c (cl_ord_id ord) @ '').'')
      (index_strategy_to_orders s (cl_ord_id ord)
        (db\<lparr>cached_orders := (cached_orders db)(cl_ord_id ord \<mapsto> ord),
            index_orders := insert (cl_ord_id ord) (index_orders db),
            index_order_strategy := (index_order_strategy db)(cl_ord_id ord \<mapsto> s)\<rparr>))"
  have "position_orders_indexed dbm = position_orders_indexed db"
    by (rule position_orders_indexed_cong) (simp_all add: dbm_def)
  then have mid: "position_orders_indexed dbm"
    using assms(1) by simp
  have "db' = dbm \<or> index_position_id dbm (Some p) (Some (cl_ord_id ord)) (Some s) = Inr db'"
    using assms(2) unfolding args dbm_def
    by (simp add: Let_def del: index_position_id.simps split: if_splits)
  then show ?thesis
    using mid index_position_id_indexed by blast
qed

lemma add_position_indexed:
  assumes "position_orders_indexed db"
    and "add_position db position strategy_id = Inr db'"
  shows "position_orders_indexed db'"
proof -
  obtain pos s where args: "position = Some pos" "strategy_id = Some s"
    using assms(2) by (cases position; cases strategy_id) auto
  define dbm where "dbm =
    db\<lparr>cached_positions := (cached_positions db)(id_p pos \<mapsto> pos),
       index_positions := insert (id_p pos) (index_positions db),
       index_positions_open := insert (id_p pos) (index_positions_open db)\<rparr>"
  have "position_orders_indexed dbm = position_orders_indexed db"
    by (rule position_orders_indexed_cong) (simp_all add: dbm_def)
  then have mid: "position_orders_indexed dbm"
    using assms(1) by simp
  obtain db2 where db2: "index_position_id dbm (Some (id_p pos)) (Some (from_order pos)) (Some s) = Inr db2"
    by simp
  have "db' = emit DEBUG (''Added Position(id='' @ value_p (id_p pos) @ '').'') db2"
    using assms(2) db2 unfolding args dbm_def
    by (simp add: Let_def del: index_position_id.simps split: if_splits)
  then have "position_orders_indexed db' = position_orders_indexed db2"
    by (intro position_orders_indexed_cong) simp_all
  then show ?thesis
    using mid db2 index_position_id_indexed by blast
qed

lemma execute_indexed:
  assumes "execute db c = Inr db'" and "position_orders_indexed db"
  shows "position_orders_indexed db'"
proof -
  have same: "position_orders_indexed db'"
    if "index_position_orders db' = index_position_orders db"
      and "index_order_position db' = index_order_position db"
    using that assms(2) position_orders_indexed_cong by blast
  show ?thesis
  proof (cases c)
    case (AddAccount a)
    then show ?thesis using assms(1) by (intro same; cases a) (auto split: if_splits)
  next
    case (AddOrder ord p s)
    then show ?thesis using assms add_order_indexed by simp
  next
    case (AddPosition pos s)
    then show ?thesis using assms add_position_indexed by simp
  next
    case (UpdateAccount a)
    then show ?thesis using assms(1) by (intro same) (auto simp: update_account_def)
  next
    case (UpdateStrategy st)
    then show ?thesis using assms(1) by (intro same; cases st) auto
  next
    case (UpdateOrder ord)
    then show ?thesis using assms(1) by (intro same; cases ord) (auto split: if_splits)
  next
    case (UpdatePosition pos)
    then show ?thesis using assms(1) by (intro same; cases pos) (auto split: if_splits)
  next
    case (LoadStrategy st)
    then show ?thesis using assms(1) by (intro same; cases st) auto
  next
    case (DeleteStrategy st)
    then show ?thesis
      using assms(1) by (intro same; cases st) (auto simp: Let_def split: if_splits)
  next
    case Reset
    then show ?thesis
      using assms(1) by (auto simp: position_orders_indexed_def reset_def reset_base_def)
  next
    case Flush
    then show ?thesis using assms(1) by (intro same) (auto simp: flush_def)
  qed
qed

lemma run_indexed:
  "position_orders_indexed db \<Longrightarrow> position_orders_indexed (run db cs)"
proof (induction cs arbitrary: db)
  case Nil
  then show ?case by simp
next
  case (Cons c cs)
  have "position_orders_indexed (step db c)"
  proof (rule step_invariant)
    show "position_orders_indexed db" using Cons.prems .
  next
    fix db' assume "execute db c = Inr db'"
    then show "position_orders_indexed db'"
      using Cons.prems by (rule execute_indexed)
  qed
  then show ?case using Cons.IH by simp
qed

lemma reachable_indexed: "position_orders_indexed (run new_database cs)"
  by (rule run_indexed) (simp add: position_orders_indexed_def new_database_def)

text \<open>
  C5. In a store reached from a fresh one by any sequence of commands, an order added
  with the NULL position identifier and a strategy leaves the two position indices of
  orders as they were: after the call the order is listed under no position and
  \<^verbatim>\<open>get_position_id\<close> finds nothing for it, while the order is in the primary store,
  in the orders set, in the index from orders to strategies and in the set of its
  strategy.
\<close>

theorem add_order_null_position:
  assumes "is_null position_id"
    and "add_order (run new_database cs) (Some order) (Some position_id) (Some strategy_id)
           = Inr db'"
  shows "cl_ord_id order \<notin> \<Union> (ran (index_position_orders db'))
    \<and> get_position_id db' (Some (cl_ord_id order)) = Inr None
    \<and> index_position_orders db' = index_position_orders (run new_database cs)
    \<and> index_order_position db' = index_order_position (run new_database cs)
    \<and> get_order db' (Some (cl_ord_id order)) = Inr (Some order)
    \<and> order_exists db' (Some (cl_ord_id order)) = Inr True
    \<and> get_strategy_for_order db' (Some (cl_ord_id order)) = Inr (Some strategy_id)
    \<and> cl_ord_id order \<in> get_order_ids db' (Some strategy_id)"
proof -
  define db where "db = run new_database cs"
  have inv: "position_orders_indexed db"
    unfolding db_def by (rule reachable_indexed)
  have added: "add_order db (Some order) (Some position_id) (Some strategy_id) = Inr db'"
    using assms(2) by (simp add: db_def)
  have c1: "cached_orders db (cl_ord_id order) = None"
    using added by (cases "cached_orders db (cl_ord_id order)") simp_all
  have c2: "cl_ord_id order \<notin> index_orders db"
    using added c1 by (cases "cl_ord_id order \<in> index_orders db") simp_all
  have c3: "index_order_position db (cl_ord_id order) = None"
    using added c1 c2 by (cases "index_order_position db (cl_ord_id order)") simp_all
  have c4: "index_order_strategy db (cl_ord_id order) = None"
    using added c1 c2 c3 by (cases "index_order_strategy db (cl_ord_id order)") simp_all
  have db': "db' =
    emit DEBUG (''Added Order(cl_ord_id='' @ value_c (cl_ord_id order) @ '').'')
      (index_strategy_to_orders strategy_id (cl_ord_id order)
        (db\<lparr>cached_orders := (cached_orders db)(cl_ord_id order \<mapsto> order),
            index_orders := insert (cl_ord_id order) (index_orders db),
            index_order_strategy := (index_order_strategy db)(cl_ord_id order \<mapsto> strategy_id)\<rparr>))"
    using added c1 c2 c3 c4 assms(1) by (simp add: Let_def)
  have unlisted: "cl_ord_id order \<notin> \<Union> (ran (index_position_orders db))"
    using inv c3 unfolding position_orders_indexed_def ran_def by (auto simp: domIff)
  have same: "index_position_orders db' = index_position_orders db"
    "index_order_position db' = index_order_position db"
    unfolding db' by simp_all
  have rest: "get_order db' (Some (cl_ord_id order)) = Inr (Some order)"
    "order_exists db' (Some (cl_ord_id order)) = Inr True"
    "get_strategy_for_order db' (Some (cl_ord_id order)) = Inr (Some strategy_id)"
    "cl_ord_id order \<in> get_order_ids db' (Some strategy_id)"
    unfolding db' by simp_all
  show ?thesis
    using unlisted c3 rest by (simp add: same flip: db_def)
qed

theorem add_order_null_position_witness:
  "is_null null_id
   \<and> \<not> isl (add_order
         (run new_database [AddPosition (Some position_1) (Some (StrategyId ''S-1''))])
         (Some order_2) (Some null_id) (Some (StrategyId ''S-1'')))
   \<and> index_position_orders
        (run new_database [AddPosition (Some position_1) (Some (StrategyId ''S-1''))])
        (PositionId ''P-1'') = Some {ClientOrderId ''O-1''}
   \<and> ClientOrderId ''O-2''
       \<notin> \<Union> (ran (index_position_orders
            (projr (add_order
               (run new_database [AddPosition (Some position_1) (Some (StrategyId ''S-1''))])
               (Some order_2) (Some null_id) (Some (StrategyId ''S-1''))))))
   \<and> get_position_id
        (projr (add_order
           (run new_database [AddPosition (Some position_1) (Some (StrategyId ''S-1''))])
           (Some order_2) (Some null_id) (Some (StrategyId ''S-1''))))
        (Some (ClientOrderId ''O-2'')) = Inr None
   \<and> get_order
        (projr (add_order
           (run new_database [AddPosition (Some position_1) (Some (StrategyId ''S-1''))])
           (Some order_2) (Some null_id) (Some (StrategyId ''S-1''))))
        (Some (ClientOrderId ''O-2'')) = Inr (Some order_2)
   \<and> ClientOrderId ''O-2''
       \<in> get_order_ids
           (projr (add_order
              (run new_database [AddPosition (Some position_1) (Some (StrategyId ''S-1''))])
              (Some order_2) (Some null_id) (Some (StrategyId ''S-1''))))
           (Some (StrategyId ''S-1''))"
proof -
  let ?db = "run new_database [AddPosition (Some position_1) (Some (StrategyId ''S-1''))]"
  let ?r = "add_order ?db (Some order_2) (Some null_id) (Some (StrategyId ''S-1''))"
  have null: "is_null null_id"
    by (simp add: is_null_def)
  have ok: "\<not> isl ?r"
    by (simp add: step_def new_database_def is_null_def Let_def)
  define r where "r = projr ?r"
  have res: "?r = Inr r"
    using ok unfolding r_def by (cases ?r) simp_all
  have listed: "index_position_orders ?db (PositionId ''P-1'') = Some {ClientOrderId ''O-1''}"
    by (simp add: step_def new_database_def Let_def)
  have "ClientOrderId ''O-2'' \<notin> \<Union> (ran (index_position_orders r))
    \<and> get_position_id r (Some (ClientOrderId ''O-2'')) = Inr None
    \<and> get_order r (Some (ClientOrderId ''O-2'')) = Inr (Some order_2)
    \<and> ClientOrderId ''O-2'' \<in> get_order_ids r (Some (StrategyId ''S-1''))"
    using add_order_null_position [OF null res]
    by (simp add: step_def new_database_def Let_def)
  then show ?thesis
    using null ok listed unfolding r_def by blast
qed

subsection \<open>Set-once indices\<close>

text \<open>
  C6 (as amended). Called with three identifiers, \<^verbatim>\<open>index_position_id\<close> does not
  fail. Where the order already maps to another position, that entry stays and an error
  is logged; likewise where the position already maps to another strategy. In every case
  the order is added to the orders of the position and the position to the positions of
  the strategy. The index from strategies to orders is not touched: it is
  \<^verbatim>\<open>add_order\<close> that maintains it.
\<close>

theorem index_position_id_set_once:
  "\<exists>db'. index_position_id db (Some p) (Some c) (Some s) = Inr db'
     \<and> (\<forall>q. index_order_position db c = Some q \<and> q \<noteq> p \<longrightarrow>
           index_order_position db' = index_order_position db
           \<and> (ERROR, ''Order indexing invalid for '' @ value_p p @ ''.'')
               \<in> set (drop (length (logged db)) (logged db')))
     \<and> (\<forall>t. index_position_strategy db p = Some t \<and> t \<noteq> s \<longrightarrow>
           index_position_strategy db' = index_position_strategy db
           \<and> (ERROR, ''Strategy indexing invalid for '' @ value_p p @ ''.'')
               \<in> set (drop (length (logged db)) (logged db')))
     \<and> (index_order_position db c = None \<longrightarrow>
           index_order_position db' = (index_order_position db)(c \<mapsto> p))
     \<and> (index_position_strategy db p = None \<longrightarrow>
           index_position_strategy db' = (index_position_strategy db)(p \<mapsto> s))
     \<and> index_position_orders db' =
         (index_position_orders db)
           (p \<mapsto> insert c (case index_position_orders db p of None \<Rightarrow> {} | Some ids \<Rightarrow> ids))
     \<and> index_strategy_positions db' =
         (index_strategy_positions db)
           (s \<mapsto> insert p (case index_strategy_positions db s of None \<Rightarrow> {} | Some ids \<Rightarrow> ids))
     \<and> index_strategy_orders db' = index_strategy_orders db
     \<and> index_order_strategy db' = index_order_strategy db
     \<and> cached_orders db' = cached_orders db
     \<and> cached_positions db' = cached_positions db"
  by auto

theorem index_position_id_set_once_witness:
  "index_order_position
     (run new_database [AddPosition (Some position_1) (Some (StrategyId ''S-1''))])
     (ClientOrderId ''O-1'') = Some (PositionId ''P-1'')
   \<and> PositionId ''P-1'' \<noteq> PositionId ''P-2''
   \<and> (\<exists>db'. index_position_id
         (run new_database [AddPosition (Some position_1) (Some (StrategyId ''S-1''))])
         (Some (PositionId ''P-2'')) (Some (ClientOrderId ''O-1'')) (Some (StrategyId ''S-1''))
         = Inr db'
        \<and> index_order_position db' (ClientOrderId ''O-1'') = Some (PositionId ''P-1'')
        \<and> (ERROR, ''Order indexing invalid for P-2.'') \<in> set (logged db')
        \<and> index_position_orders db' (PositionId ''P-2'') = Some {ClientOrderId ''O-1''}
        \<and> index_strategy_positions db' (StrategyId ''S-1'')
            = Some {PositionId ''P-2'', PositionId ''P-1''})
   \<and> index_position_strategy
       (run new_database [AddPosition (Some position_1) (Some (StrategyId ''S-1''))])
       (PositionId ''P-1'') = Some (StrategyId ''S-1'')
   \<and> StrategyId ''S-1'' \<noteq> StrategyId ''S-2''
   \<and> (\<exists>db'. index_position_id
         (run new_database [AddPosition (Some position_1) (Some (StrategyId ''S-1''))])
         (Some (PositionId ''P-1'')) (Some (ClientOrderId ''O-1'')) (Some (StrategyId ''S-2''))
         = Inr db'
        \<and> index_position_strategy db' (PositionId ''P-1'') = Some (StrategyId ''S-1'')
        \<and> (ERROR, ''Strategy indexing invalid for P-1.'') \<in> set (logged db')
        \<and> index_strategy_positions db' (StrategyId ''S-2'') = Some {PositionId ''P-1''})"
proof -
  let ?db = "run new_database [AddPosition (Some position_1) (Some (StrategyId ''S-1''))]"
  have before: "index_order_position ?db (ClientOrderId ''O-1'') = Some (PositionId ''P-1'')"
    "index_position_strategy ?db (PositionId ''P-1'') = Some (StrategyId ''S-1'')"
    "index_position_orders ?db (PositionId ''P-2'') = None"
    "index_strategy_positions ?db (StrategyId ''S-1'') = Some {PositionId ''P-1''}"
    "index_strategy_positions ?db (StrategyId ''S-2'') = None"
    by (simp_all add: step_def new_database_def Let_def)
  from index_position_id_set_once [of ?db "PositionId ''P-2''" "ClientOrderId ''O-1''"
      "StrategyId ''S-1''"]
  obtain db1 where db1:
    "index_position_id ?db (Some (PositionId ''P-2'')) (Some (ClientOrderId ''O-1''))
       (Some (StrategyId ''S-1'')) = Inr db1"
    "\<forall>q. index_order_position ?db (ClientOrderId ''O-1'') = Some q \<and> q \<noteq> PositionId ''P-2'' \<longrightarrow>
           index_order_position db1 = index_order_position ?db
           \<and> (ERROR, ''Order indexing invalid for '' @ value_p (PositionId ''P-2'') @ ''.'')
               \<in> set (drop (length (logged ?db)) (logged db1))"
    "index_position_orders db1 =
         (index_position_orders ?db)
           (PositionId ''P-2'' \<mapsto> insert (ClientOrderId ''O-1'')
              (case index_position_orders ?db (PositionId ''P-2'') of
                 None \<Rightarrow> {} | Some ids \<Rightarrow> ids))"
    "index_strategy_positions db1 =
         (index_strategy_positions ?db)
           (StrategyId ''S-1'' \<mapsto> insert (PositionId ''P-2'')
              (case index_strategy_positions ?db (StrategyId ''S-1'') of
                 None \<Rightarrow> {} | Some ids \<Rightarrow> ids))"
    by blast
  have kept: "index_order_position db1 = index_order_position ?db"
    and logged1: "(ERROR, ''Order indexing invalid for '' @ value_p (PositionId ''P-2'') @ ''.'')
               \<in> set (drop (length (logged ?db)) (logged db1))"
    using db1(2) before(1) by simp_all
  have first: "\<exists>db'. index_position_id ?db
         (Some (PositionId ''P-2'')) (Some (ClientOrderId ''O-1'')) (Some (StrategyId ''S-1''))
         = Inr db'
        \<and> index_order_position db' (ClientOrderId ''O-1'') = Some (PositionId ''P-1'')
        \<and> (ERROR, ''Order indexing invalid for P-2.'') \<in> set (logged db')
        \<and> index_position_orders db' (PositionId ''P-2'') = Some {ClientOrderId ''O-1''}
        \<and> index_strategy_positions db' (StrategyId ''S-1'')
            = Some {PositionId ''P-2'', PositionId ''P-1''}"
  proof (intro exI [of _ db1] conjI)
    show "index_position_id ?db
         (Some (PositionId ''P-2'')) (Some (ClientOrderId ''O-1'')) (Some (StrategyId ''S-1''))
         = Inr db1" by (rule db1(1))
    show "index_order_position db1 (ClientOrderId ''O-1'') = Some (PositionId ''P-1'')"
      unfolding kept by (rule before(1))
    show "(ERROR, ''Order indexing invalid for P-2.'') \<in> set (logged db1)"
      using logged1 in_set_dropD by fastforce
    show "index_position_orders db1 (PositionId ''P-2'') = Some {ClientOrderId ''O-1''}"
      unfolding db1(3) before(3) by simp
    show "index_strategy_positions db1 (StrategyId ''S-1'')
            = Some {PositionId ''P-2'', PositionId ''P-1''}"
      unfolding db1(4) before(4) by simp
  qed
  from index_position_id_set_once [of ?db "PositionId ''P-1''" "ClientOrderId ''O-1''"
      "StrategyId ''S-2''"]
  obtain db2 where db2:
    "index_position_id ?db (Some (PositionId ''P-1'')) (Some (ClientOrderId ''O-1''))
       (Some (StrategyId ''S-2'')) = Inr db2"
    "\<forall>t. index_position_strategy ?db (PositionId ''P-1'') = Some t \<and> t \<noteq> StrategyId ''S-2'' \<longrightarrow>
           index_position_strategy db2 = index_position_strategy ?db
           \<and> (ERROR, ''Strategy indexing invalid for '' @ value_p (PositionId ''P-1'') @ ''.'')
               \<in> set (drop (length (logged ?db)) (logged db2))"
    "index_strategy_positions db2 =
         (index_strategy_positions ?db)
           (StrategyId ''S-2'' \<mapsto> insert (PositionId ''P-1'')
              (case index_strategy_positions ?db (StrategyId ''S-2'') of
                 None \<Rightarrow> {} | Some ids \<Rightarrow> ids))"
    by blast
  have kept2: "index_position_strategy db2 = index_position_strategy ?db"
    and logged2: "(ERROR, ''Strategy indexing invalid for '' @ value_p (PositionId ''P-1'') @ ''.'')
               \<in> set (drop (length (logged ?db)) (logged db2))"
    using db2(2) before(2) by simp_all
  have second: "\<exists>db'. index_position_id ?db
         (Some (PositionId ''P-1'')) (Some (ClientOrderId ''O-1'')) (Some (StrategyId ''S-2''))
         = Inr db'
        \<and> index_position_strategy db' (PositionId ''P-1'') = Some (StrategyId ''S-1'')
        \<and> (ERROR, ''Strategy indexing invalid for P-1.'') \<in> set (logged db')
        \<and> index_strategy_positions db' (StrategyId ''S-2'') = Some {PositionId ''P-1''}"
  proof (intro exI [of _ db2] conjI)
    show "index_position_id ?db
         (Some (PositionId ''P-1'')) (Some (ClientOrderId ''O-1'')) (Some (StrategyId ''S-2''))
         = Inr db2" by (rule db2(1))
    show "index_position_strategy db2 (PositionId ''P-1'') = Some (StrategyId ''S-1'')"
      unfolding kept2 by (rule before(2))
    show "(ERROR, ''Strategy indexing invalid for P-1.'') \<in> set (logged db2)"
      using logged2 in_set_dropD by fastforce
    show "index_strategy_positions db2 (StrategyId ''S-2'') = Some {PositionId ''P-1''}"
      unfolding db2(3) before(5) by simp
  qed
  show ?thesis
    using before(1,2) first second by simp
qed

text \<open>
  With the index from strategies to orders among the updates, C6 fails: after
  \<^verbatim>\<open>add_position\<close> has indexed the order of a position, indexing the same order
  under a second position logs the conflict and updates the two position sets, and the
  strategy still has no entry in the index from strategies to orders. The call is the one
  that \<^verbatim>\<open>add_position\<close> makes for a second position of the order.
\<close>

theorem index_position_id_set_once_counterexample:
  "\<not> isl (index_position_id
        (run new_database [AddPosition (Some position_1) (Some (StrategyId ''S-1''))])
        (Some (PositionId ''P-2'')) (Some (ClientOrderId ''O-1'')) (Some (StrategyId ''S-1'')))
   \<and> index_strategy_orders
       (projr (index_position_id
          (run new_database [AddPosition (Some position_1) (Some (StrategyId ''S-1''))])
          (Some (PositionId ''P-2'')) (Some (ClientOrderId ''O-1'')) (Some (StrategyId ''S-1''))))
       (StrategyId ''S-1'') = None
   \<and> get_order_ids
       (projr (index_position_id
          (run new_database [AddPosition (Some position_1) (Some (StrategyId ''S-1''))])
          (Some (PositionId ''P-2'')) (Some (ClientOrderId ''O-1'')) (Some (StrategyId ''S-1''))))
       (Some (StrategyId ''S-1'')) = {}
   \<and> index_strategy_orders
       (run new_database
          [AddPosition (Some position_1) (Some (StrategyId ''S-1'')),
           AddPosition (Some position_2) (Some (StrategyId ''S-1''))])
       (StrategyId ''S-1'') = None"
  by (simp add: step_def new_database_def Let_def)

subsection \<open>Deleting a strategy\<close>

lemma lookup_orders_cong:
  assumes "cached_orders a = cached_orders b"
  shows "get_order a = get_order b" and "load_order a = load_order b"
proof -
  have "get_order a x = get_order b x \<and> load_order a x = load_order b x" for x
    using assms by (cases x) simp_all
  then show "get_order a = get_order b" and "load_order a = load_order b"
    by (simp_all add: fun_eq_iff)
qed

lemma lookup_positions_cong:
  assumes "cached_positions a = cached_positions b"
  shows "get_position a = get_position b" and "load_position a = load_position b"
proof -
  have "get_position a x = get_position b x \<and> load_position a x = load_position b x" for x
    using assms by (cases x) simp_all
  then show "get_position a = get_position b" and "load_position a = load_position b"
    by (simp_all add: fun_eq_iff)
qed

lemma lookup_accounts_cong:
  assumes "cached_accounts a = cached_accounts b"
  shows "get_account a = get_account b" and "load_account a = load_account b"
proof -
  have "get_account a x = get_account b x \<and> load_account a x = load_account b x" for x
    using assms by (cases x) simp_all
  then show "get_account a = get_account b" and "load_account a = load_account b"
    by (simp_all add: fun_eq_iff)
qed

lemma delete_strategy_result:
  assumes "id_s strategy \<in> strategies db"
  shows "delete_strategy db (Some strategy) =
     Inr (emit DEBUG (''Deleted Strategy(id='' @ value_s (id_s strategy) @ '').'')
           (db\<lparr>strategies := strategies db - {id_s strategy},
               index_strategy_orders := (index_strategy_orders db)(id_s strategy := None),
               index_strategy_positions := (index_strategy_positions db)(id_s strategy := None)\<rparr>))"
proof -
  have idem: "m(k := None) = m" if "m k = None" for m :: "strategy_id \<rightharpoonup> 'x" and k
    using that by (simp add: fun_eq_iff)
  show ?thesis
    using assms
    by (cases "index_strategy_orders db (id_s strategy)";
        cases "index_strategy_positions db (id_s strategy)") (simp_all add: Let_def idem)
qed

text \<open>
  C7. When the strategy's identifier is among the known strategies,
  \<^verbatim>\<open>delete_strategy\<close> removes it from them and removes its entries from the two
  strategy indices, so that the order and position identifiers queried for the strategy
  are empty; the primary stores and every other index stay as they were, and every
  lookup by identifier answers as before. Otherwise it fails with the not-registered
  precondition violation.
\<close>

theorem delete_strategy_effect:
  "(id_s strategy \<in> strategies db \<longrightarrow>
      (\<exists>db'. delete_strategy db (Some strategy) = Inr db'
         \<and> strategies db' = strategies db - {id_s strategy}
         \<and> index_strategy_orders db' = (index_strategy_orders db)(id_s strategy := None)
         \<and> index_strategy_positions db' = (index_strategy_positions db)(id_s strategy := None)
         \<and> get_order_ids db' (Some (id_s strategy)) = {}
         \<and> get_position_ids db' (Some (id_s strategy)) = {}
         \<and> cached_accounts db' = cached_accounts db
         \<and> cached_orders db' = cached_orders db
         \<and> cached_positions db' = cached_positions db
         \<and> index_order_position db' = index_order_position db
         \<and> index_order_strategy db' = index_order_strategy db
         \<and> index_position_strategy db' = index_position_strategy db
         \<and> index_position_orders db' = index_position_orders db
         \<and> index_orders db' = index_orders db
         \<and> index_orders_working db' = index_orders_working db
         \<and> index_orders_completed db' = index_orders_completed db
         \<and> index_positions db' = index_positions db
         \<and> index_positions_open db' = index_positions_open db
         \<and> index_positions_closed db' = index_positions_closed db
         \<and> get_order db' = get_order db \<and> load_order db' = load_order db
         \<and> get_position db' = get_position db \<and> load_position db' = load_position db
         \<and> get_account db' = get_account db \<and> load_account db' = load_account db))
   \<and> (id_s strategy \<notin> strategies db \<longrightarrow>
        delete_strategy db (Some strategy) = Inl (NotRegistered ''strategy.id'' ''strategies'')
        \<and> is_precondition_violation (NotRegistered ''strategy.id'' ''strategies''))"
proof (intro conjI impI)
  assume known: "id_s strategy \<in> strategies db"
  let ?db' = "emit DEBUG (''Deleted Strategy(id='' @ value_s (id_s strategy) @ '').'')
     (db\<lparr>strategies := strategies db - {id_s strategy},
         index_strategy_orders := (index_strategy_orders db)(id_s strategy := None),
         index_strategy_positions := (index_strategy_positions db)(id_s strategy := None)\<rparr>)"
  have res: "delete_strategy db (Some strategy) = Inr ?db'"
    by (rule delete_strategy_result [OF known])
  have orders: "get_order ?db' = get_order db" "load_order ?db' = load_order db"
    by (rule lookup_orders_cong, simp)+
  have positions: "get_position ?db' = get_position db" "load_position ?db' = load_position db"
    by (rule lookup_positions_cong, simp)+
  have accounts: "get_account ?db' = get_account db" "load_account ?db' = load_account db"
    by (rule lookup_accounts_cong, simp)+
  show "\<exists>db'. delete_strategy db (Some strategy) = Inr db'
         \<and> strategies db' = strategies db - {id_s strategy}
         \<and> index_strategy_orders db' = (index_strategy_orders db)(id_s strategy := None)
         \<and> index_strategy_positions db' = (index_strategy_positions db)(id_s strategy := None)
         \<and> get_order_ids db' (Some (id_s strategy)) = {}
         \<and> get_position_ids db' (Some (id_s strategy)) = {}
         \<and> cached_accounts db' = cached_accounts db
         \<and> cached_orders db' = cached_orders db
         \<and> cached_positions db' = cached_positions db
         \<and> index_order_position db' = index_order_position db
         \<and> index_order_strategy db' = index_order_strategy db
         \<and> index_position_strategy db' = index_position_strategy db
         \<and> index_position_orders db' = index_position_orders db
         \<and> index_orders db' = index_orders db
         \<and> index_orders_working db' = index_orders_working db
         \<and> index_orders_completed db' = index_orders_completed db
         \<and> index_positions db' = index_positions db
         \<and> index_positions_open db' = index_positions_open db
         \<and> index_positions_closed db' = index_positions_closed db
         \<and> get_order db' = get_order db \<and> load_order db' = load_order db
         \<and> get_position db' = get_position db \<and> load_position db' = load_position db
         \<and> get_account db' = get_account db \<and> load_account db' = load_account db"
  proof (rule exI [of _ ?db'], intro conjI)
    show "delete_strategy db (Some strategy) = Inr ?db'"
      by (rule res)
  qed (simp_all only: orders positions accounts, simp_all)
next
  assume "id_s strategy \<notin> strategies db"
  then show "delete_strategy db (Some strategy) = Inl (NotRegistered ''strategy.id'' ''strategies'')"
    by simp
next
  show "is_precondition_violation (NotRegistered ''strategy.id'' ''strategies'')"
    by simp
qed

theorem delete_strategy_effect_witness:
  "id_s strategy_1
     \<in> strategies (run new_database
         [AddOrder (Some order_1) (Some null_id) (Some (StrategyId ''S-1'')),
          AddPosition (Some position_1) (Some (StrategyId ''S-1'')),
          UpdateStrategy (Some strategy_1)])
   \<and> (\<exists>db'. delete_strategy
         (run new_database
           [AddOrder (Some order_1) (Some null_id) (Some (StrategyId ''S-1'')),
            AddPosition (Some position_1) (Some (StrategyId ''S-1'')),
            UpdateStrategy (Some strategy_1)])
         (Some strategy_1) = Inr db'
        \<and> get_order_ids db' (Some (StrategyId ''S-1'')) = {}
        \<and> get_position_ids db' (Some (StrategyId ''S-1'')) = {}
        \<and> get_order db' (Some (ClientOrderId ''O-1'')) = Inr (Some order_1)
        \<and> load_position db' (Some (PositionId ''P-1'')) = Inr (Some position_1))
   \<and> id_s strategy_1 \<notin> strategies new_database
   \<and> delete_strategy new_database (Some strategy_1)
       = Inl (NotRegistered ''strategy.id'' ''strategies'')"
proof -
  let ?db = "run new_database
         [AddOrder (Some order_1) (Some null_id) (Some (StrategyId ''S-1'')),
          AddPosition (Some position_1) (Some (StrategyId ''S-1'')),
          UpdateStrategy (Some strategy_1)]"
  have known: "id_s strategy_1 \<in> strategies ?db"
    by (simp add: step_def new_database_def is_null_def Let_def)
  have orders: "cached_orders ?db (ClientOrderId ''O-1'') = Some order_1"
    by (simp add: step_def new_database_def is_null_def Let_def)
  have positions: "cached_positions ?db (PositionId ''P-1'') = Some position_1"
    by (simp add: step_def new_database_def is_null_def Let_def)
  have unknown: "id_s strategy_1 \<notin> strategies new_database"
    by (simp add: new_database_def)
  from delete_strategy_effect [of strategy_1 ?db] known
  obtain db' where res: "delete_strategy ?db (Some strategy_1) = Inr db'"
    and ids: "get_order_ids db' (Some (id_s strategy_1)) = {}"
      "get_position_ids db' (Some (id_s strategy_1)) = {}"
    and same: "get_order db' = get_order ?db" "load_position db' = load_position ?db"
    by blast
  have "get_order db' (Some (ClientOrderId ''O-1'')) = Inr (Some order_1)"
    and "load_position db' (Some (PositionId ''P-1'')) = Inr (Some position_1)"
    unfolding same using orders positions by simp_all
  then have "\<exists>db'. delete_strategy ?db (Some strategy_1) = Inr db'
        \<and> get_order_ids db' (Some (StrategyId ''S-1'')) = {}
        \<and> get_position_ids db' (Some (StrategyId ''S-1'')) = {}
        \<and> get_order db' (Some (ClientOrderId ''O-1'')) = Inr (Some order_1)
        \<and> load_position db' (Some (PositionId ''P-1'')) = Inr (Some position_1)"
    using res ids by (intro exI [of _ db']) simp
  then show ?thesis
    using known unknown delete_strategy_effect [of strategy_1 new_database] by blast
qed

subsection \<open>Reset\<close>

lemma reset_fields [simp]:
  shows "cached_accounts (reset db) = Map.empty"
    and "cached_orders (reset db) = Map.empty"
    and "cached_positions (reset db) = Map.empty"
    and "strategies (reset db) = {}"
    and "index_order_position (reset db) = Map.empty"
    and "index_order_strategy (reset db) = Map.empty"
    and "index_position_strategy (reset db) = Map.empty"
    and "index_position_orders (reset db) = Map.empty"
    and "index_strategy_orders (reset db) = Map.empty"
    and "index_strategy_positions (reset db) = Map.empty"
    and "index_orders (reset db) = {}"
    and "index_orders_working (reset db) = {}"
    and "index_orders_completed (reset db) = {}"
    and "index_positions (reset db) = {}"
    and "index_positions_open (reset db) = {}"
    and "index_positions_closed (reset db) = {}"
    and "logged (reset db) =
           logged db @ [(DEBUG, ''Resetting...''), (DEBUG, ''Resetting...''), (INFO, ''Reset.'')]"
  by (simp_all add: reset_def reset_base_def)

lemma reset_id_sets:
  shows "get_order_ids (reset db) s = {}"
    and "get_order_working_ids (reset db) s = {}"
    and "get_order_completed_ids (reset db) s = {}"
    and "get_position_ids (reset db) s = {}"
    and "get_position_open_ids (reset db) s = {}"
    and "get_position_closed_ids (reset db) s = {}"
  by (cases s; simp)+

text \<open>
  C8. After \<^verbatim>\<open>reset\<close>, in whatever state it was called: every id-set query, with
  any filter or none, is empty; every existence and state predicate is false for every
  identifier; every count is zero; every lookup finds nothing; the dictionary queries
  return the empty dictionary.
\<close>

theorem reset_clears:
  "get_order_ids (reset db) s = {}
   \<and> get_order_working_ids (reset db) s = {}
   \<and> get_order_completed_ids (reset db) s = {}
   \<and> get_position_ids (reset db) s = {}
   \<and> get_position_open_ids (reset db) s = {}
   \<and> get_position_closed_ids (reset db) s = {}
   \<and> get_strategy_ids (reset db) = {}
   \<and> order_exists (reset db) (Some c) = Inr False
   \<and> is_order_working (reset db) (Some c) = Inr False
   \<and> is_order_completed (reset db) (Some c) = Inr False
   \<and> position_exists (reset db) (Some p) = Inr False
   \<and> is_position_open (reset db) (Some p) = Inr False
   \<and> is_position_closed (reset db) (Some p) = Inr False
   \<and> position_exists_for_order (reset db) (Some c) = Inr False
   \<and> position_indexed_for_order (reset db) (Some c) = Inr False
   \<and> orders_total_count (reset db) s = 0
   \<and> orders_working_count (reset db) s = 0
   \<and> orders_completed_count (reset db) s = 0
   \<and> positions_total_count (reset db) s = 0
   \<and> positions_open_count (reset db) s = 0
   \<and> positions_closed_count (reset db) s = 0
   \<and> load_account (reset db) (Some a) = Inr None
   \<and> load_order (reset db) (Some c) = Inr None
   \<and> load_position (reset db) (Some p) = Inr None
   \<and> get_account (reset db) (Some a) = Inr None
   \<and> get_order (reset db) (Some c) = Inr None
   \<and> get_position (reset db) (Some p) = Inr None
   \<and> get_position_id (reset db) (Some c) = Inr None
   \<and> get_strategy_for_order (reset db) (Some c) = Inr None
   \<and> get_strategy_for_position (reset db) (Some p) = Inr None
   \<and> snd (get_orders (reset db) s) = Inr Map.empty
   \<and> snd (get_orders_working (reset db) s) = Inr Map.empty
   \<and> snd (get_orders_completed (reset db) s) = Inr Map.empty
   \<and> snd (get_positions (reset db) s) = Inr Map.empty
   \<and> snd (get_positions_open (reset db) s) = Inr Map.empty
   \<and> snd (get_positions_closed (reset db) s) = Inr Map.empty"
proof -
  have zero: "c_int 0 = 0"
    by (simp add: c_int_def)
  have sets: "get_order_ids (reset db) s = {}" "get_order_working_ids (reset db) s = {}"
    "get_order_completed_ids (reset db) s = {}" "get_position_ids (reset db) s = {}"
    "get_position_open_ids (reset db) s = {}" "get_position_closed_ids (reset db) s = {}"
    by (rule reset_id_sets)+
  have counts: "orders_total_count (reset db) s = 0" "orders_working_count (reset db) s = 0"
    "orders_completed_count (reset db) s = 0" "positions_total_count (reset db) s = 0"
    "positions_open_count (reset db) s = 0" "positions_closed_count (reset db) s = 0"
    by (simp_all add: orders_total_count_def orders_working_count_def orders_completed_count_def
        positions_total_count_def positions_open_count_def positions_closed_count_def sets zero)
  have dicts: "snd (get_orders (reset db) s) = Inr Map.empty"
    "snd (get_orders_working (reset db) s) = Inr Map.empty"
    "snd (get_orders_completed (reset db) s) = Inr Map.empty"
    "snd (get_positions (reset db) s) = Inr Map.empty"
    "snd (get_positions_open (reset db) s) = Inr Map.empty"
    "snd (get_positions_closed (reset db) s) = Inr Map.empty"
    by (simp_all add: get_orders_def get_orders_working_def get_orders_completed_def
        get_positions_def get_positions_open_def get_positions_closed_def project_def sets)
  show ?thesis
    by (simp add: sets counts dicts get_strategy_ids_def)
qed

subsection \<open>Counts\<close>

lemma c_int_small: "n < 2 ^ 31 \<Longrightarrow> c_int n = int n"
  unfolding c_int_def by (simp add: signed_of_nat signed_take_bit_int_eq_self)

lemma c_int_wraps: "c_int (2 ^ 31) = - (2 ^ 31)"
  unfolding c_int_def
  by (simp add: signed_of_nat signed_take_bit_eq_take_bit_shift take_bit_eq_mod)

text \<open>The long run adds every one of its orders.\<close>

lemma nth_order_id_inj: "cl_ord_id (nth_order m) = cl_ord_id (nth_order n) \<longleftrightarrow> m = n"
proof
  assume "cl_ord_id (nth_order m) = cl_ord_id (nth_order n)"
  then have "length (replicate m CHR ''I'') = length (replicate n CHR ''I'')"
    by (simp add: nth_order_def)
  then show "m = n" by simp
qed simp

lemma long_run:
  "index_orders (run new_database (map add_nth_order [0..<n])) = (cl_ord_id \<circ> nth_order) ` {..<n}
   \<and> dom (cached_orders (run new_database (map add_nth_order [0..<n])))
       = (cl_ord_id \<circ> nth_order) ` {..<n}
   \<and> dom (index_order_strategy (run new_database (map add_nth_order [0..<n])))
       = (cl_ord_id \<circ> nth_order) ` {..<n}
   \<and> index_order_position (run new_database (map add_nth_order [0..<n])) = Map.empty"
proof (induction n)
  case 0
  show ?case by (simp add: new_database_def)
next
  case (Suc n)
  define db where "db = run new_database (map add_nth_order [0..<n])"
  define ids where "ids = (cl_ord_id \<circ> nth_order) ` {..<n}"
  define c where "c = cl_ord_id (nth_order n)"
  have ih: "index_orders db = ids" "dom (cached_orders db) = ids"
    "dom (index_order_strategy db) = ids" "index_order_position db = Map.empty"
    using Suc unfolding db_def ids_def by simp_all
  have fresh: "c \<notin> ids"
    unfolding c_def ids_def by (auto simp: nth_order_id_inj)
  have c1: "cached_orders db c = None"
    using ih(2) fresh by (metis domIff)
  have c4: "index_order_strategy db c = None"
    using ih(3) fresh by (metis domIff)
  have more: "(cl_ord_id \<circ> nth_order) ` {..<Suc n} = insert c ids"
    unfolding c_def ids_def by (auto simp: less_Suc_eq)
  have "execute db (add_nth_order n)
          = add_order db (Some (nth_order n)) (Some null_id) (Some (StrategyId ''S-1''))"
    by (simp add: add_nth_order_def)
  then have "index_orders (step db (add_nth_order n)) = insert c ids
     \<and> dom (cached_orders (step db (add_nth_order n))) = insert c ids
     \<and> dom (index_order_strategy (step db (add_nth_order n))) = insert c ids
     \<and> index_order_position (step db (add_nth_order n)) = Map.empty"
    using ih fresh c1 c4 by (simp add: step_def is_null_def Let_def flip: c_def)
  moreover have "run new_database (map add_nth_order [0..<Suc n]) = step db (add_nth_order n)"
    by (simp add: run_snoc db_def)
  ultimately show ?case
    by (simp only: more)
qed

lemma long_run_card: "card (index_orders (run new_database (map add_nth_order [0..<n]))) = n"
proof -
  have "inj_on (cl_ord_id \<circ> nth_order) {..<n}"
    by (rule inj_onI) (simp add: nth_order_id_inj)
  then have "card ((cl_ord_id \<circ> nth_order) ` {..<n}) = card {..<n}"
    by (rule card_image)
  then show ?thesis
    using long_run [of n] by (simp only: card_lessThan)
qed

text \<open>
  C9 (as amended). For every state and every filter, each count query returns the size
  of the set that the matching id-set query returns, as long as that size is below
  \<open>2 ^ 31\<close>: the count is returned through a C \<^verbatim>\<open>int\<close>.
\<close>

theorem counts_are_sizes:
  "(card (get_order_ids db s) < 2 ^ 31 \<longrightarrow>
      orders_total_count db s = int (card (get_order_ids db s)))
   \<and> (card (get_order_working_ids db s) < 2 ^ 31 \<longrightarrow>
      orders_working_count db s = int (card (get_order_working_ids db s)))
   \<and> (card (get_order_completed_ids db s) < 2 ^ 31 \<longrightarrow>
      orders_completed_count db s = int (card (get_order_completed_ids db s)))
   \<and> (card (get_position_ids db s) < 2 ^ 31 \<longrightarrow>
      positions_total_count db s = int (card (get_position_ids db s)))
   \<and> (card (get_position_open_ids db s) < 2 ^ 31 \<longrightarrow>
      positions_open_count db s = int (card (get_position_open_ids db s)))
   \<and> (card (get_position_closed_ids db s) < 2 ^ 31 \<longrightarrow>
      positions_closed_count db s = int (card (get_position_closed_ids db s)))"
  by (simp add: orders_total_count_def orders_working_count_def orders_completed_count_def
      positions_total_count_def positions_open_count_def positions_closed_count_def c_int_small)

theorem counts_are_sizes_witness:
  "card (get_order_ids
          (run new_database
             [AddOrder (Some order_1) (Some null_id) (Some (StrategyId ''S-1'')),
              AddOrder (Some order_2) (Some null_id) (Some (StrategyId ''S-2''))])
          None) = 2
   \<and> orders_total_count
        (run new_database
           [AddOrder (Some order_1) (Some null_id) (Some (StrategyId ''S-1'')),
            AddOrder (Some order_2) (Some null_id) (Some (StrategyId ''S-2''))])
        None = 2
   \<and> orders_total_count
        (run new_database
           [AddOrder (Some order_1) (Some null_id) (Some (StrategyId ''S-1'')),
            AddOrder (Some order_2) (Some null_id) (Some (StrategyId ''S-2''))])
        (Some (StrategyId ''S-2'')) = 1"
proof -
  let ?db = "run new_database
             [AddOrder (Some order_1) (Some null_id) (Some (StrategyId ''S-1'')),
              AddOrder (Some order_2) (Some null_id) (Some (StrategyId ''S-2''))]"
  have all: "get_order_ids ?db None = {ClientOrderId ''O-1'', ClientOrderId ''O-2''}"
    by (simp add: step_def new_database_def is_null_def Let_def insert_commute)
  have one: "get_order_ids ?db (Some (StrategyId ''S-2'')) = {ClientOrderId ''O-2''}"
    by (simp add: step_def new_database_def is_null_def Let_def)
  have "card (get_order_ids ?db None) = 2" "card (get_order_ids ?db (Some (StrategyId ''S-2''))) = 1"
    unfolding all one by simp_all
  then show ?thesis
    using counts_are_sizes [of ?db None] counts_are_sizes [of ?db "Some (StrategyId ''S-2'')"]
    by simp
qed

text \<open>
  Without the bound, C9 fails where a set has \<open>2 ^ 31\<close> members: after that many
  orders have been added, the length no longer fits the C \<^verbatim>\<open>int\<close> and the count is
  negative.
\<close>

theorem counts_are_sizes_counterexample:
  "card (get_order_ids (run new_database (map add_nth_order [0..<2 ^ 31])) None) = 2 ^ 31
   \<and> orders_total_count (run new_database (map add_nth_order [0..<2 ^ 31])) None = - (2 ^ 31)"
proof -
  have size: "card (index_orders (run new_database (map add_nth_order [0..<2 ^ 31]))) = 2 ^ 31"
    by (rule long_run_card)
  show ?thesis
    by (simp only: orders_total_count_def get_order_ids.simps size c_int_wraps)
qed

subsection \<open>Updates of records that were never added\<close>

text \<open>
  C10. \<^verbatim>\<open>update_order\<close> and \<^verbatim>\<open>update_position\<close> do not look at the primary store
  or at the sets of all orders and positions: a working order is put into the working
  set, a closed position into the closed set, and whether the order or the position
  exists is as before the call (so it stays false for one that was never added).
\<close>

theorem update_without_existence_check:
  "(is_working order \<longrightarrow>
      (\<exists>db'. update_order db (Some order) = Inr db'
         \<and> is_order_working db' (Some (cl_ord_id order)) = Inr True
         \<and> order_exists db' (Some (cl_ord_id order)) = order_exists db (Some (cl_ord_id order))
         \<and> get_order db' (Some (cl_ord_id order)) = get_order db (Some (cl_ord_id order))))
   \<and> (is_closed position \<longrightarrow>
      (\<exists>db'. update_position db (Some position) = Inr db'
         \<and> is_position_closed db' (Some (id_p position)) = Inr True
         \<and> position_exists db' (Some (id_p position)) = position_exists db (Some (id_p position))
         \<and> get_position db' (Some (id_p position)) = get_position db (Some (id_p position))))"
  by simp

theorem update_without_existence_check_witness:
  "is_working order_2
   \<and> (\<exists>db'. update_order new_database (Some order_2) = Inr db'
         \<and> is_order_working db' (Some (ClientOrderId ''O-2'')) = Inr True
         \<and> order_exists db' (Some (ClientOrderId ''O-2'')) = Inr False
         \<and> get_order db' (Some (ClientOrderId ''O-2'')) = Inr None)
   \<and> is_closed position_1_closed
   \<and> (\<exists>db'. update_position new_database (Some position_1_closed) = Inr db'
         \<and> is_position_closed db' (Some (PositionId ''P-1'')) = Inr True
         \<and> position_exists db' (Some (PositionId ''P-1'')) = Inr False
         \<and> get_position db' (Some (PositionId ''P-1'')) = Inr None)"
  using update_without_existence_check [of order_2 new_database position_1_closed]
  by (simp add: new_database_def)

end
